theory Spec2Isabelle
  imports Complex_Main
begin

section \<open>Leap-size control of the embedded Runge-Kutta tau-leaping simulator\<close>

text \<open>
  This theory embeds the two post-leap checkers of Network3's partitioned-leaping
  algorithm, \<^verbatim>\<open>eRungeKutta_TC_FG_rbPL\<close> (reaction based) and
  \<^verbatim>\<open>eRungeKutta_TC_FG_sbPL\<close> (species based).

  Conventions of the embedding:
  \<^item> a C++ \<^verbatim>\<open>double\<close> is a real number: rounding, overflow and NaN are not part of
    the model. \<^verbatim>\<open>sqrt\<close> of a negative number is NaN in C++ whereas \<^term>\<open>sqrt\<close> is odd
    in HOL, so every statement about the sign or the size of a square root assumes
    a non-negative radicand;
  \<^item> a \<^verbatim>\<open>SimpleSpecies*\<close> is an address, a natural number, and the populations live
    in a store from addresses to reals; a \<^verbatim>\<open>Reaction*\<close> is represented by what the code
    reads from it, the vector \<^verbatim>\<open>rateSpecies\<close> of species addresses;
  \<^item> the members \<^verbatim>\<open>sp\<close> and \<^verbatim>\<open>rxn\<close> are references to vectors owned by the
    simulator, which grow between calls: every operation takes the current network;
  \<^item> \<^verbatim>\<open>exit(1)\<close> is the result \<open>Inl\<close> of a \<open>failure\<close>, one constructor per call site;
  \<^item> a raw array \<^verbatim>\<open>double*\<close> obtained from \<^verbatim>\<open>new double[n]\<close> is a list of length
    \<open>n\<close>. Reading or writing a vector or an array out of range is undefined
    behaviour in C++. In \<^verbatim>\<open>update\<close>, whose copy loop runs before the tests of the
    sizes, such an access is the result \<open>Inl Undefined_behaviour\<close>, about which
    nothing further is stated. Elsewhere the model reads with \<open>!\<close> and writes
    with list update, and the statements about values stay within range;
  \<^item> the classes used but not defined in these sources (the bound checkers, the
    effective-propensity calculator, the pre-leap tau calculator, the g-value getter,
    the binomial corrector) are parameters, collected in the record \<open>env\<close>. The
    checkers carry a state of their own, threaded through every call.
\<close>

subsection \<open>The network, the collaborators and the failures\<close>

record network =
  population :: "nat \<Rightarrow> real"
  sp :: "nat list"
  rxn :: "nat list list"

text \<open>The public data members of the effective-propensity calculator \<^verbatim>\<open>aCalc\<close>.\<close>

record aEff_Calculator =
  a_eff :: "real list"
  X_eff :: "real list"
  stoich :: "real list list"
  spInRxn :: "nat list list"
  rateSp :: "nat list list"

datatype failure =
    pp_less_than_p
  | q_less_than_one
  | w_out_of_range
  | No_rxns_to_add
  | No_species_to_add
  | oldPop_size_mismatch
  | old_g_size_mismatch
  | projPop_size_mismatch
  | Collaborator_exit
  | Undefined_behaviour

record ('rch, 'sch, 'bc, 'g) env =
  ptc_getNewTau :: "network \<Rightarrow> real \<Rightarrow> real"
  calc_aEff :: "network \<Rightarrow> real \<Rightarrow> aEff_Calculator \<Rightarrow> aEff_Calculator"
  RBChecker_new :: "network \<Rightarrow> real \<Rightarrow> failure + 'rch"
  RBChecker_check ::
    "network \<Rightarrow> real \<Rightarrow> real list \<Rightarrow> real list list \<Rightarrow> bool \<Rightarrow> 'rch \<Rightarrow> bool \<times> 'rch"
  SBChecker_new :: "network \<Rightarrow> real \<Rightarrow> failure + 'sch"
  SBChecker_check ::
    "network \<Rightarrow> real \<Rightarrow> real list \<Rightarrow> real list \<Rightarrow> real list \<Rightarrow> bool \<Rightarrow> 'sch \<Rightarrow> bool \<times> 'sch"
  BinomialCorrector_RK_new :: "network \<Rightarrow> real \<Rightarrow> failure + 'bc"
  g_Getter_new :: "network \<Rightarrow> failure + 'g"
  get_g :: "network \<Rightarrow> 'g \<Rightarrow> nat \<Rightarrow> real"

subsection \<open>Projected population changes\<close>

text \<open>
  The inner loop over the reactions \<open>v\<close> that change species \<open>j\<close>: it accumulates
  \<^verbatim>\<open>mean_dX[j] += z_vj*a_eff[R_v]\<close> and \<^verbatim>\<open>sdev_dX[j] += z_vj*z_vj*a_eff[R_v]\<close>.
\<close>

definition accum_dX :: "aEff_Calculator \<Rightarrow> nat \<Rightarrow> real \<times> real" where
  "accum_dX ac j =
     fold (\<lambda>v (m, s).
             let z_vj = stoich ac ! j ! v; R_v = spInRxn ac ! j ! v
             in (m + z_vj * a_eff ac ! R_v, s + z_vj * z_vj * a_eff ac ! R_v))
          [0..<length (spInRxn ac ! j)] (0, 0)"

text \<open>\<^verbatim>\<open>mean_dX[j] *= tau\<close>.\<close>

definition mean_dX :: "aEff_Calculator \<Rightarrow> real \<Rightarrow> nat \<Rightarrow> real" where
  "mean_dX ac tau j = fst (accum_dX ac j) * tau"

text \<open>
  \<^verbatim>\<open>sdev_dX[j] *= tau; sdev_dX[j] = sqrt(sdev_dX[j]);\<close> and the sign is flipped when
  the mean is negative.
\<close>

definition sdev_dX :: "aEff_Calculator \<Rightarrow> real \<Rightarrow> nat \<Rightarrow> real" where
  "sdev_dX ac tau j =
     (let s = sqrt (snd (accum_dX ac j) * tau)
      in if mean_dX ac tau j < 0 then - s else s)"

text \<open>The two local arrays of length \<^verbatim>\<open>X_eff.size()\<close>.\<close>

definition mean_dX_array :: "aEff_Calculator \<Rightarrow> real \<Rightarrow> real list" where
  "mean_dX_array ac tau = map (mean_dX ac tau) [0..<length (X_eff ac)]"

definition sdev_dX_array :: "aEff_Calculator \<Rightarrow> real \<Rightarrow> real list" where
  "sdev_dX_array ac tau = map (sdev_dX ac tau) [0..<length (X_eff ac)]"

subsection \<open>The reaction-based checker\<close>

record ('rch, 'bc) rbPL =
  rb_p :: real
  rb_pp :: real
  rb_q :: real
  rb_w :: real
  rb_preCalc :: bool
  rb_substantially :: bool
  rb_oldPop :: "real list list"
  rb_projPop :: "real list list"
  rb_ch :: 'rch
  rb_bc :: 'bc
  rb_aCalc :: aEff_Calculator

definition rb_addRxn :: "network \<Rightarrow> ('rch, 'bc) rbPL \<Rightarrow> failure + ('rch, 'bc) rbPL" where
  "rb_addRxn net st =
     (if length (rb_oldPop st) < length (rxn net) \<and> length (rb_projPop st) < length (rxn net)
         \<and> length (rb_oldPop st) = length (rb_projPop st)
      then let u = length (rb_oldPop st)
           in Inr (st\<lparr>rb_oldPop := rb_oldPop st @ [map (population net) (rxn net ! u)],
                      rb_projPop := rb_projPop st @ [replicate (length (rxn net ! u)) 0]\<rparr>)
      else Inl No_rxns_to_add)"

text \<open>The loop \<^verbatim>\<open>for (v=0; v < rxn.size(); v++) addRxn();\<close> of the constructors.\<close>

fun rb_addRxn_times :: "nat \<Rightarrow> network \<Rightarrow> ('rch, 'bc) rbPL \<Rightarrow> failure + ('rch, 'bc) rbPL" where
  "rb_addRxn_times 0 net st = Inr st"
| "rb_addRxn_times (Suc n) net st =
     (case rb_addRxn net st of Inl e \<Rightarrow> Inl e | Inr st' \<Rightarrow> rb_addRxn_times n net st')"

text \<open>The loop that opens \<^verbatim>\<open>getNewTau\<close> and \<^verbatim>\<open>check\<close> ("Check for new rxns").\<close>

function rb_catch_up :: "network \<Rightarrow> ('rch, 'bc) rbPL \<Rightarrow> failure + ('rch, 'bc) rbPL" where
  "rb_catch_up net st =
     (if length (rb_oldPop st) \<noteq> length (rxn net) \<and> length (rb_projPop st) \<noteq> length (rxn net)
      then (case rb_addRxn net st of Inl e \<Rightarrow> Inl e | Inr st' \<Rightarrow> rb_catch_up net st')
      else Inr st)"
  by pat_completeness auto
termination
  by (relation "measure (\<lambda>(net, st). length (rxn net) - length (rb_oldPop st))")
     (auto simp: rb_addRxn_def Let_def split: if_splits)

declare rb_catch_up.simps [simp del]

text \<open>
  The double loop "Calculate elements of projPop[][]":
  \<^verbatim>\<open>projPop[v][j] = oldPop[v][j] + mean_dX[S_j] + sdev_dX[S_j]\<close> with
  \<^verbatim>\<open>S_j = aCalc->rateSp[v][j]\<close>, for \<open>j\<close> below \<^verbatim>\<open>rxn[v]->rateSpecies.size()\<close>.
\<close>

definition rb_project_row ::
  "network \<Rightarrow> aEff_Calculator \<Rightarrow> real list \<Rightarrow> real list \<Rightarrow> real list list \<Rightarrow> nat \<Rightarrow> real list
     \<Rightarrow> real list" where
  "rb_project_row net ac means sdevs old v row =
     fold (\<lambda>j r. let S_j = rateSp ac ! v ! j
                  in r[j := old ! v ! j + means ! S_j + sdevs ! S_j])
          [0..<length (rxn net ! v)] row"

definition rb_project ::
  "network \<Rightarrow> aEff_Calculator \<Rightarrow> real list \<Rightarrow> real list \<Rightarrow> real list list \<Rightarrow> real list list
     \<Rightarrow> real list list" where
  "rb_project net ac means sdevs old proj =
     fold (\<lambda>v P. P[v := rb_project_row net ac means sdevs old v (P ! v)])
          [0..<length proj] proj"

text \<open>
  One pass through the body of the loop \<^verbatim>\<open>while (!ok)\<close> of \<^verbatim>\<open>getNewTau\<close>, up to
  the assignment of \<^verbatim>\<open>ok\<close>.
\<close>

definition rb_trial ::
  "('rch, 'sch, 'bc, 'g) env \<Rightarrow> network \<Rightarrow> real \<Rightarrow> ('rch, 'bc) rbPL \<Rightarrow> bool \<times> ('rch, 'bc) rbPL" where
  "rb_trial E net tau st =
     (let ac = calc_aEff E net tau (rb_aCalc st);
          P = rb_project net ac (mean_dX_array ac tau) (sdev_dX_array ac tau)
                (rb_oldPop st) (rb_projPop st);
          (ok, c) = RBChecker_check E net 1 (a_eff ac) P False (rb_ch st)
      in (ok, st\<lparr>rb_aCalc := ac, rb_projPop := P, rb_ch := c\<rparr>))"

text \<open>
  The loop \<^verbatim>\<open>while (!ok)\<close> has no bound on its iterations: the result is \<open>None\<close>
  when it runs forever, and the accepted \<open>tau\<close> with the final state otherwise.
\<close>

partial_function (option) rb_precheck ::
  "('rch, 'sch, 'bc, 'g) env \<Rightarrow> network \<Rightarrow> real \<Rightarrow> ('rch, 'bc) rbPL
     \<Rightarrow> (real \<times> ('rch, 'bc) rbPL) option" where
  "rb_precheck E net tau st =
     (case rb_trial E net tau st of
        (ok, st') \<Rightarrow> if ok then Some (tau, st') else rb_precheck E net (tau * rb_p st') st')"

text \<open>The tau that enters the pre-check ("Get new tau").\<close>

definition rb_start_tau ::
  "('rch, 'sch, 'bc, 'g) env \<Rightarrow> network \<Rightarrow> real \<Rightarrow> ('rch, 'bc) rbPL \<Rightarrow> real" where
  "rb_start_tau E net tau st =
     (if rb_preCalc st then ptc_getNewTau E net tau
      else if rb_substantially st then tau * rb_q st
      else tau * rb_pp st)"

definition rb_getNewTau ::
  "('rch, 'sch, 'bc, 'g) env \<Rightarrow> network \<Rightarrow> real \<Rightarrow> ('rch, 'bc) rbPL
     \<Rightarrow> (failure + real \<times> ('rch, 'bc) rbPL) option" where
  "rb_getNewTau E net tau st =
     (case rb_catch_up net st of
        Inl e \<Rightarrow> Some (Inl e)
      | Inr st1 \<Rightarrow>
          map_option Inr
            (rb_precheck E net (rb_start_tau E net tau st1)
               (if rb_preCalc st1 then st1\<lparr>rb_preCalc := False\<rparr> else st1)))"

definition rb_check ::
  "('rch, 'sch, 'bc, 'g) env \<Rightarrow> network \<Rightarrow> ('rch, 'bc) rbPL
     \<Rightarrow> failure + bool \<times> ('rch, 'bc) rbPL" where
  "rb_check E net st =
     (case rb_catch_up net st of
        Inl e \<Rightarrow> Inl e
      | Inr st1 \<Rightarrow>
          (let (s, c1) = RBChecker_check E net (rb_w st1) (a_eff (rb_aCalc st1)) (rb_oldPop st1)
                           True (rb_ch st1);
               st2 = st1\<lparr>rb_substantially := s, rb_ch := c1\<rparr>
           in if s then Inr (True, st2)
              else (let (ok, c2) = RBChecker_check E net 1 (a_eff (rb_aCalc st2)) (rb_oldPop st2)
                                     True (rb_ch st2)
                    in Inr (ok, st2\<lparr>rb_ch := c2\<rparr>))))"

text \<open>The double loop "Update oldPop[][]" of \<^verbatim>\<open>update\<close>.\<close>

definition rb_update_row :: "network \<Rightarrow> nat \<Rightarrow> real list \<Rightarrow> real list" where
  "rb_update_row net v row =
     fold (\<lambda>j r. r[j := population net (rxn net ! v ! j)]) [0..<length (rxn net ! v)] row"

definition rb_update_oldPop :: "network \<Rightarrow> real list list \<Rightarrow> real list list" where
  "rb_update_oldPop net old =
     fold (\<lambda>v P. P[v := rb_update_row net v (P ! v)]) [0..<length old] old"

text \<open>
  The loop reads \<^verbatim>\<open>rxn[v]\<close> for every \<open>v\<close> below \<^verbatim>\<open>oldPop.size()\<close> and writes
  \<^verbatim>\<open>oldPop[v][j]\<close> for every \<open>j\<close> below \<^verbatim>\<open>rxn[v]->rateSpecies.size()\<close>: it stays
  within the vector and the arrays when \<^verbatim>\<open>oldPop\<close> is not longer than \<^verbatim>\<open>rxn\<close> and
  no row of \<^verbatim>\<open>oldPop\<close> is shorter than the rate species of its reaction.
\<close>

definition rb_update_in_range :: "network \<Rightarrow> real list list \<Rightarrow> bool" where
  "rb_update_in_range net old \<longleftrightarrow>
     length old \<le> length (rxn net)
     \<and> list_all2 (\<lambda>row rs. length rs \<le> length row) old (take (length old) (rxn net))"

text \<open>
  \<^verbatim>\<open>update\<close>: the loop, which is undefined behaviour when it leaves the arrays,
  and then ("Just in case") the two tests of the sizes.
\<close>

definition rb_update :: "network \<Rightarrow> ('rch, 'bc) rbPL \<Rightarrow> failure + ('rch, 'bc) rbPL" where
  "rb_update net st =
     (if \<not> rb_update_in_range net (rb_oldPop st) then Inl Undefined_behaviour
      else
        (let st' = st\<lparr>rb_oldPop := rb_update_oldPop net (rb_oldPop st)\<rparr>
         in if length (rb_oldPop st') \<noteq> length (rxn net) then Inl oldPop_size_mismatch
            else if length (rb_projPop st') \<noteq> length (rxn net) then Inl projPop_size_mismatch
            else Inr st'))"

text \<open>
  The constructors. The base-class constructor \<^verbatim>\<open>eRungeKutta_FG(bt,sp,rxn)\<close> has run
  and has produced the calculator \<open>ac0\<close>; the member \<^verbatim>\<open>substantially\<close> has no
  initialiser, its indeterminate content is the argument \<open>s0\<close>. The two
  constructors differ in the argument \<^verbatim>\<open>round\<close> of the base class only.
\<close>

definition rb_new ::
  "('rch, 'sch, 'bc, 'g) env \<Rightarrow> aEff_Calculator \<Rightarrow> bool \<Rightarrow> real \<Rightarrow> real \<Rightarrow> real \<Rightarrow> real \<Rightarrow> real
     \<Rightarrow> network \<Rightarrow> failure + ('rch, 'bc) rbPL" where
  "rb_new E ac0 s0 eps p0 pp0 q0 w0 net =
     (if pp0 < p0 then Inl pp_less_than_p
      else if q0 < 1 then Inl q_less_than_one
      else if w0 \<le> 0 \<or> w0 \<ge> 1 then Inl w_out_of_range
      else (case RBChecker_new E net eps of
              Inl e \<Rightarrow> Inl e
            | Inr c \<Rightarrow>
                (case BinomialCorrector_RK_new E net p0 of
                   Inl e \<Rightarrow> Inl e
                 | Inr b \<Rightarrow>
                     rb_addRxn_times (length (rxn net)) net
                       \<lparr>rb_p = p0, rb_pp = pp0, rb_q = q0, rb_w = w0, rb_preCalc = True,
                        rb_substantially = s0, rb_oldPop = [], rb_projPop = [],
                        rb_ch = c, rb_bc = b, rb_aCalc = ac0\<rparr>)))"

text \<open>
  The copy constructor: the checker and the corrector are copied, the calculator
  \<open>ac0\<close> is what the base-class copy constructor produced, and the two vectors are
  filled again from the network.
\<close>

definition rb_copy ::
  "aEff_Calculator \<Rightarrow> bool \<Rightarrow> network \<Rightarrow> ('rch, 'bc) rbPL \<Rightarrow> failure + ('rch, 'bc) rbPL" where
  "rb_copy ac0 s0 net orig =
     rb_addRxn_times (length (rxn net)) net
       \<lparr>rb_p = rb_p orig, rb_pp = rb_pp orig, rb_q = rb_q orig, rb_w = rb_w orig,
        rb_preCalc = True, rb_substantially = s0, rb_oldPop = [], rb_projPop = [],
        rb_ch = rb_ch orig, rb_bc = rb_bc orig, rb_aCalc = ac0\<rparr>"

subsection \<open>The species-based checker\<close>

record ('sch, 'bc, 'g) sbPL =
  sb_p :: real
  sb_pp :: real
  sb_q :: real
  sb_w :: real
  sb_preCalc :: bool
  sb_substantially :: bool
  sb_oldPop :: "real list"
  sb_old_g :: "real list"
  sb_projPop :: "real list"
  sb_ch :: 'sch
  sb_bc :: 'bc
  sb_gGet :: 'g
  sb_aCalc :: aEff_Calculator

definition sb_addSpecies ::
  "('rch, 'sch, 'bc, 'g) env \<Rightarrow> network \<Rightarrow> ('sch, 'bc, 'g) sbPL \<Rightarrow> failure + ('sch, 'bc, 'g) sbPL" where
  "sb_addSpecies E net st =
     (if length (sb_oldPop st) < length (sp net) \<and> length (sb_oldPop st) = length (sb_old_g st)
         \<and> length (sb_oldPop st) = length (sb_projPop st)
      then let i = length (sb_oldPop st)
           in Inr (st\<lparr>sb_oldPop := sb_oldPop st @ [population net (sp net ! i)],
                      sb_old_g := sb_old_g st @ [get_g E net (sb_gGet st) i],
                      sb_projPop := sb_projPop st @ [0]\<rparr>)
      else Inl No_species_to_add)"

text \<open>The loop \<^verbatim>\<open>for (j=0; j < sp.size(); j++) addSpecies();\<close> of the constructors.\<close>

fun sb_addSpecies_times ::
  "nat \<Rightarrow> ('rch, 'sch, 'bc, 'g) env \<Rightarrow> network \<Rightarrow> ('sch, 'bc, 'g) sbPL
     \<Rightarrow> failure + ('sch, 'bc, 'g) sbPL" where
  "sb_addSpecies_times 0 E net st = Inr st"
| "sb_addSpecies_times (Suc n) E net st =
     (case sb_addSpecies E net st of Inl e \<Rightarrow> Inl e | Inr st' \<Rightarrow> sb_addSpecies_times n E net st')"

text \<open>The loop that opens \<^verbatim>\<open>getNewTau\<close> and \<^verbatim>\<open>check\<close> ("Check for new species").\<close>

function sb_catch_up ::
  "('rch, 'sch, 'bc, 'g) env \<Rightarrow> network \<Rightarrow> ('sch, 'bc, 'g) sbPL \<Rightarrow> failure + ('sch, 'bc, 'g) sbPL" where
  "sb_catch_up E net st =
     (if length (sb_oldPop st) \<noteq> length (sp net) \<and> length (sb_old_g st) \<noteq> length (sp net)
         \<and> length (sb_projPop st) \<noteq> length (sp net)
      then (case sb_addSpecies E net st of Inl e \<Rightarrow> Inl e | Inr st' \<Rightarrow> sb_catch_up E net st')
      else Inr st)"
  by pat_completeness auto
termination
  by (relation "measure (\<lambda>(E, net, st). length (sp net) - length (sb_oldPop st))")
     (auto simp: sb_addSpecies_def Let_def split: if_splits)

declare sb_catch_up.simps [simp del]

text \<open>
  The loop "Calculate elements of projPop[]":
  \<^verbatim>\<open>projPop[j] = oldPop[j] + mean_dX[j] + sdev_dX[j]\<close>.
\<close>

definition sb_project :: "real list \<Rightarrow> real list \<Rightarrow> real list \<Rightarrow> real list \<Rightarrow> real list" where
  "sb_project means sdevs old proj =
     fold (\<lambda>j P. P[j := old ! j + means ! j + sdevs ! j]) [0..<length proj] proj"

text \<open>
  One pass through the body of the loop \<^verbatim>\<open>while (!ok)\<close>; \<^verbatim>\<open>curr_g\<close> points to
  \<^verbatim>\<open>old_g\<close>.
\<close>

definition sb_trial ::
  "('rch, 'sch, 'bc, 'g) env \<Rightarrow> network \<Rightarrow> real \<Rightarrow> ('sch, 'bc, 'g) sbPL
     \<Rightarrow> bool \<times> ('sch, 'bc, 'g) sbPL" where
  "sb_trial E net tau st =
     (let ac = calc_aEff E net tau (sb_aCalc st);
          P = sb_project (mean_dX_array ac tau) (sdev_dX_array ac tau) (sb_oldPop st) (sb_projPop st);
          (ok, c) = SBChecker_check E net 1 (X_eff ac) P (sb_old_g st) False (sb_ch st)
      in (ok, st\<lparr>sb_aCalc := ac, sb_projPop := P, sb_ch := c\<rparr>))"

partial_function (option) sb_precheck ::
  "('rch, 'sch, 'bc, 'g) env \<Rightarrow> network \<Rightarrow> real \<Rightarrow> ('sch, 'bc, 'g) sbPL
     \<Rightarrow> (real \<times> ('sch, 'bc, 'g) sbPL) option" where
  "sb_precheck E net tau st =
     (case sb_trial E net tau st of
        (ok, st') \<Rightarrow> if ok then Some (tau, st') else sb_precheck E net (tau * sb_p st') st')"

definition sb_start_tau ::
  "('rch, 'sch, 'bc, 'g) env \<Rightarrow> network \<Rightarrow> real \<Rightarrow> ('sch, 'bc, 'g) sbPL \<Rightarrow> real" where
  "sb_start_tau E net tau st =
     (if sb_preCalc st then ptc_getNewTau E net tau
      else if sb_substantially st then tau * sb_q st
      else tau * sb_pp st)"

definition sb_getNewTau ::
  "('rch, 'sch, 'bc, 'g) env \<Rightarrow> network \<Rightarrow> real \<Rightarrow> ('sch, 'bc, 'g) sbPL
     \<Rightarrow> (failure + real \<times> ('sch, 'bc, 'g) sbPL) option" where
  "sb_getNewTau E net tau st =
     (case sb_catch_up E net st of
        Inl e \<Rightarrow> Some (Inl e)
      | Inr st1 \<Rightarrow>
          map_option Inr
            (sb_precheck E net (sb_start_tau E net tau st1)
               (if sb_preCalc st1 then st1\<lparr>sb_preCalc := False\<rparr> else st1)))"

definition sb_check ::
  "('rch, 'sch, 'bc, 'g) env \<Rightarrow> network \<Rightarrow> ('sch, 'bc, 'g) sbPL
     \<Rightarrow> failure + bool \<times> ('sch, 'bc, 'g) sbPL" where
  "sb_check E net st =
     (case sb_catch_up E net st of
        Inl e \<Rightarrow> Inl e
      | Inr st1 \<Rightarrow>
          (let (s, c1) = SBChecker_check E net (sb_w st1) (X_eff (sb_aCalc st1)) (sb_oldPop st1)
                           (sb_old_g st1) True (sb_ch st1);
               st2 = st1\<lparr>sb_substantially := s, sb_ch := c1\<rparr>
           in if s then Inr (True, st2)
              else (let (ok, c2) = SBChecker_check E net 1 (X_eff (sb_aCalc st2)) (sb_oldPop st2)
                                     (sb_old_g st2) True (sb_ch st2)
                    in Inr (ok, st2\<lparr>sb_ch := c2\<rparr>))))"

text \<open>The loop "Update oldPop[] and old_g[]" of \<^verbatim>\<open>update\<close>.\<close>

definition sb_update_arrays ::
  "('rch, 'sch, 'bc, 'g) env \<Rightarrow> network \<Rightarrow> 'g \<Rightarrow> real list \<times> real list \<Rightarrow> real list \<times> real list" where
  "sb_update_arrays E net gg og =
     fold (\<lambda>j (old, g). (old[j := population net (sp net ! j)], g[j := get_g E net gg j]))
          [0..<length (fst og)] og"

text \<open>
  The loop reads \<^verbatim>\<open>sp[j]\<close> and writes \<^verbatim>\<open>old_g[j]\<close> for every \<open>j\<close> below
  \<^verbatim>\<open>oldPop.size()\<close>: it stays within the vectors when \<^verbatim>\<open>oldPop\<close> is longer than
  neither \<^verbatim>\<open>sp\<close> nor \<^verbatim>\<open>old_g\<close>.
\<close>

definition sb_update_in_range :: "network \<Rightarrow> real list \<Rightarrow> real list \<Rightarrow> bool" where
  "sb_update_in_range net old g \<longleftrightarrow> length old \<le> length (sp net) \<and> length old \<le> length g"

text \<open>
  \<^verbatim>\<open>update\<close>: the loop, which is undefined behaviour when it leaves the vectors,
  and then ("Just in case") the three tests of the sizes.
\<close>

definition sb_update ::
  "('rch, 'sch, 'bc, 'g) env \<Rightarrow> network \<Rightarrow> ('sch, 'bc, 'g) sbPL \<Rightarrow> failure + ('sch, 'bc, 'g) sbPL" where
  "sb_update E net st =
     (if \<not> sb_update_in_range net (sb_oldPop st) (sb_old_g st) then Inl Undefined_behaviour
      else
        (let (old, g) = sb_update_arrays E net (sb_gGet st) (sb_oldPop st, sb_old_g st);
             st' = st\<lparr>sb_oldPop := old, sb_old_g := g\<rparr>
         in if length (sb_oldPop st') \<noteq> length (sp net) then Inl oldPop_size_mismatch
            else if length (sb_old_g st') \<noteq> length (sp net) then Inl old_g_size_mismatch
            else if length (sb_projPop st') \<noteq> length (sp net) then Inl projPop_size_mismatch
            else Inr st'))"

text \<open>
  The constructors, under the same conventions as for the reaction-based checker.
\<close>

definition sb_new ::
  "('rch, 'sch, 'bc, 'g) env \<Rightarrow> aEff_Calculator \<Rightarrow> bool \<Rightarrow> real \<Rightarrow> real \<Rightarrow> real \<Rightarrow> real \<Rightarrow> real
     \<Rightarrow> network \<Rightarrow> failure + ('sch, 'bc, 'g) sbPL" where
  "sb_new E ac0 s0 eps p0 pp0 q0 w0 net =
     (if pp0 < p0 then Inl pp_less_than_p
      else if q0 < 1 then Inl q_less_than_one
      else if w0 \<le> 0 \<or> w0 \<ge> 1 then Inl w_out_of_range
      else (case SBChecker_new E net eps of
              Inl e \<Rightarrow> Inl e
            | Inr c \<Rightarrow>
                (case BinomialCorrector_RK_new E net p0 of
                   Inl e \<Rightarrow> Inl e
                 | Inr b \<Rightarrow>
                     (case g_Getter_new E net of
                        Inl e \<Rightarrow> Inl e
                      | Inr gg \<Rightarrow>
                          sb_addSpecies_times (length (sp net)) E net
                            \<lparr>sb_p = p0, sb_pp = pp0, sb_q = q0, sb_w = w0, sb_preCalc = True,
                             sb_substantially = s0, sb_oldPop = [], sb_old_g = [],
                             sb_projPop = [], sb_ch = c, sb_bc = b, sb_gGet = gg,
                             sb_aCalc = ac0\<rparr>))))"

definition sb_copy ::
  "('rch, 'sch, 'bc, 'g) env \<Rightarrow> aEff_Calculator \<Rightarrow> bool \<Rightarrow> network \<Rightarrow> ('sch, 'bc, 'g) sbPL
     \<Rightarrow> failure + ('sch, 'bc, 'g) sbPL" where
  "sb_copy E ac0 s0 net orig =
     sb_addSpecies_times (length (sp net)) E net
       \<lparr>sb_p = sb_p orig, sb_pp = sb_pp orig, sb_q = sb_q orig, sb_w = sb_w orig,
        sb_preCalc = True, sb_substantially = s0, sb_oldPop = [], sb_old_g = [],
        sb_projPop = [], sb_ch = sb_ch orig, sb_bc = sb_bc orig, sb_gGet = sb_gGet orig,
        sb_aCalc = ac0\<rparr>"

subsection \<open>What the pre-check leaves alone\<close>

text \<open>
  A pass of the pre-check writes \<^verbatim>\<open>projPop\<close>, the calculator and the checker only.
\<close>

definition rb_kept :: "('rch, 'bc) rbPL \<Rightarrow> ('rch, 'bc) rbPL \<Rightarrow> bool" where
  "rb_kept st st' \<longleftrightarrow>
     rb_p st' = rb_p st \<and> rb_pp st' = rb_pp st \<and> rb_q st' = rb_q st \<and> rb_w st' = rb_w st
     \<and> rb_preCalc st' = rb_preCalc st \<and> rb_substantially st' = rb_substantially st
     \<and> rb_oldPop st' = rb_oldPop st \<and> rb_bc st' = rb_bc st
     \<and> length (rb_projPop st') = length (rb_projPop st)"

definition sb_kept :: "('sch, 'bc, 'g) sbPL \<Rightarrow> ('sch, 'bc, 'g) sbPL \<Rightarrow> bool" where
  "sb_kept st st' \<longleftrightarrow>
     sb_p st' = sb_p st \<and> sb_pp st' = sb_pp st \<and> sb_q st' = sb_q st \<and> sb_w st' = sb_w st
     \<and> sb_preCalc st' = sb_preCalc st \<and> sb_substantially st' = sb_substantially st
     \<and> sb_oldPop st' = sb_oldPop st \<and> sb_old_g st' = sb_old_g st \<and> sb_bc st' = sb_bc st
     \<and> sb_gGet st' = sb_gGet st
     \<and> length (sb_projPop st') = length (sb_projPop st)"

subsection \<open>The end-to-end scenario\<close>

text \<open>
  One species with population 100 at address 0, one reaction whose rate law reads
  that species and which produces one molecule of it, and the constant effective
  propensity 10.
\<close>

definition scenario_net :: network where
  "scenario_net = \<lparr>population = (\<lambda>a. 100), sp = [0], rxn = [[0]]\<rparr>"

definition scenario_aCalc :: aEff_Calculator where
  "scenario_aCalc =
     \<lparr>a_eff = [10], X_eff = [100], stoich = [[1]], spInRxn = [[0]], rateSp = [[0]]\<rparr>"

text \<open>
  Modelled from the spec: the classes \<^verbatim>\<open>RBChecker\<close> and \<^verbatim>\<open>SBChecker\<close> are not part
  of these sources. The scenario uses the relative bound it describes (a change of
  at most \<open>threshold_scale * eps\<close> times the live population, divided by \<open>g\<close> in
  the species-based checker). A checker is its \<open>eps\<close> and the number of checks
  it has evaluated.
\<close>

definition scenario_RBChecker_check ::
  "network \<Rightarrow> real \<Rightarrow> real list \<Rightarrow> real list list \<Rightarrow> bool \<Rightarrow> real \<times> nat \<Rightarrow> bool \<times> real \<times> nat" where
  "scenario_RBChecker_check net scale a pop post c =
     (list_all2 (list_all2 (\<lambda>x s. \<bar>x - population net s\<bar> \<le> scale * fst c * population net s))
        pop (rxn net),
      (fst c, Suc (snd c)))"

definition scenario_SBChecker_check ::
  "network \<Rightarrow> real \<Rightarrow> real list \<Rightarrow> real list \<Rightarrow> real list \<Rightarrow> bool \<Rightarrow> real \<times> nat
     \<Rightarrow> bool \<times> real \<times> nat" where
  "scenario_SBChecker_check net scale X pop g post c =
     (list_all2 (\<lambda>(x, gj) s. \<bar>x - population net s\<bar> * gj \<le> scale * fst c * population net s)
        (zip pop g) (sp net),
      (fst c, Suc (snd c)))"

text \<open>
  Modelled from the spec: the constructors of the checkers and of
  \<^verbatim>\<open>BinomialCorrector_RK\<close> are not part of these sources. In the scenario they
  validate what the specification asks for, \<open>eps > 0\<close> and \<open>p\<close> in \<open>(0,1)\<close>. The
  pre-leap calculator proposes the initial \<open>tau = 1\<close>.
\<close>

definition scenario_env :: "(real \<times> nat, real \<times> nat, real, unit) env" where
  "scenario_env =
     \<lparr>ptc_getNewTau = (\<lambda>net tau. 1),
      calc_aEff = (\<lambda>net tau ac. ac\<lparr>a_eff := [10]\<rparr>),
      RBChecker_new = (\<lambda>net eps. if 0 < eps then Inr (eps, 0) else Inl Collaborator_exit),
      RBChecker_check = scenario_RBChecker_check,
      SBChecker_new = (\<lambda>net eps. if 0 < eps then Inr (eps, 0) else Inl Collaborator_exit),
      SBChecker_check = scenario_SBChecker_check,
      BinomialCorrector_RK_new =
        (\<lambda>net p0. if 0 < p0 \<and> p0 < 1 then Inr p0 else Inl Collaborator_exit),
      g_Getter_new = (\<lambda>net. Inr ()),
      get_g = (\<lambda>net gg j. 1)\<rparr>"

text \<open>
  The two checkers of the scenario right after construction with \<open>eps = 0.1\<close>,
  \<open>p = 0.5\<close>, \<open>pp = 0.9\<close>, \<open>q = 1.5\<close> and \<open>w = 0.01\<close>.
\<close>

definition scenario_rb :: "(real \<times> nat, real) rbPL" where
  "scenario_rb =
     \<lparr>rb_p = 1/2, rb_pp = 9/10, rb_q = 3/2, rb_w = 1/100, rb_preCalc = True,
      rb_substantially = False, rb_oldPop = [[100]], rb_projPop = [[0]],
      rb_ch = (1/10, 0), rb_bc = 1/2, rb_aCalc = scenario_aCalc\<rparr>"

definition scenario_sb :: "(real \<times> nat, real, unit) sbPL" where
  "scenario_sb =
     \<lparr>sb_p = 1/2, sb_pp = 9/10, sb_q = 3/2, sb_w = 1/100, sb_preCalc = True,
      sb_substantially = False, sb_oldPop = [100], sb_old_g = [1], sb_projPop = [0],
      sb_ch = (1/10, 0), sb_bc = 1/2, sb_gGet = (), sb_aCalc = scenario_aCalc\<rparr>"

text \<open>The reaction-based checker of the scenario after a pass of the pre-check.\<close>

definition scenario_rb_at :: "real \<Rightarrow> nat \<Rightarrow> (real \<times> nat, real) rbPL" where
  "scenario_rb_at x n =
     scenario_rb\<lparr>rb_preCalc := False, rb_projPop := [[x]], rb_ch := (1/10, n)\<rparr>"

text \<open>The species-based checker of the scenario after a pass of the pre-check.\<close>

definition scenario_sb_at :: "real \<Rightarrow> nat \<Rightarrow> (real \<times> nat, real, unit) sbPL" where
  "scenario_sb_at x n =
     scenario_sb\<lparr>sb_preCalc := False, sb_projPop := [x], sb_ch := (1/10, n)\<rparr>"

text \<open>The network of the scenario once the leap has produced five molecules.\<close>

definition scenario_net_leapt :: network where
  "scenario_net_leapt = \<lparr>population = (\<lambda>a. 105), sp = [0], rxn = [[0]]\<rparr>"

subsection \<open>Two further inputs\<close>

text \<open>
  A network of two species and two reactions, the first with two rate species and
  the second with one, and the two checkers registered on it with stale baselines.
\<close>

definition pair_net :: network where
  "pair_net = \<lparr>population = (\<lambda>a. if a = 0 then 7 else 9), sp = [0, 1], rxn = [[0, 1], [1]]\<rparr>"

definition pair_rb :: "(real \<times> nat, real) rbPL" where
  "pair_rb = scenario_rb\<lparr>rb_oldPop := [[1, 2], [3]], rb_projPop := [[0, 0], [0]]\<rparr>"

definition pair_sb :: "(real \<times> nat, real, unit) sbPL" where
  "pair_sb = scenario_sb\<lparr>sb_oldPop := [1, 2], sb_old_g := [5, 5], sb_projPop := [0, 0]\<rparr>"

text \<open>
  A calculator whose species 0 is produced by reaction 0 and consumed by reaction
  1, with a negative effective propensity for reaction 0.
\<close>

definition negative_aCalc :: aEff_Calculator where
  "negative_aCalc =
     \<lparr>a_eff = [- 1, 1], X_eff = [0], stoich = [[1, - 1]], spInRxn = [[0, 1]], rateSp = [[0]]\<rparr>"

section \<open>Auxiliary facts\<close>

subsection \<open>Loops that write an array element by element\<close>

lemma fold_upd_length [simp]:
  "length (fold (\<lambda>j r. r[j := f j r]) js r) = length r"
  by (induction js arbitrary: r) auto

lemma fold_upd_nth:
  "i < length r \<Longrightarrow>
   fold (\<lambda>j r. r[j := f j]) [0..<n] r ! i = (if i < n then f i else r ! i)"
  by (induction n) (auto simp: nth_list_update less_Suc_eq)

lemma fold_upd_self_nth:
  "i < length P \<Longrightarrow>
   fold (\<lambda>v P. P[v := g v (P ! v)]) [0..<n] P ! i = (if i < n then g i (P ! i) else P ! i)"
  by (induction n) (auto simp: nth_list_update less_Suc_eq)

lemma fold_accum:
  "fold (\<lambda>v (m, s). (m + f v, s + g v)) [0..<n] (m0 :: real, s0 :: real)
     = (m0 + sum f {..<n}, s0 + sum g {..<n})"
  by (induction n) (auto simp: lessThan_Suc)

lemma accum_dX_sum:
  "accum_dX ac j =
     (\<Sum>v<length (spInRxn ac ! j). stoich ac ! j ! v * a_eff ac ! (spInRxn ac ! j ! v),
      \<Sum>v<length (spInRxn ac ! j). stoich ac ! j ! v * stoich ac ! j ! v * a_eff ac ! (spInRxn ac ! j ! v))"
  unfolding accum_dX_def Let_def by (simp add: fold_accum)

subsection \<open>Growth of the registry, reaction based\<close>

lemma rb_addRxn_Inr:
  "rb_addRxn net st = Inr st' \<Longrightarrow>
     length (rb_oldPop st) < length (rxn net) \<and> length (rb_projPop st) = length (rb_oldPop st) \<and>
     st' = st\<lparr>rb_oldPop := rb_oldPop st @ [map (population net) (rxn net ! length (rb_oldPop st))],
              rb_projPop := rb_projPop st @ [replicate (length (rxn net ! length (rb_oldPop st))) 0]\<rparr>"
  by (auto simp: rb_addRxn_def Let_def split: if_splits)

lemma rb_catch_up_synced:
  "length (rb_oldPop st) = length (rxn net) \<or> length (rb_projPop st) = length (rxn net) \<Longrightarrow>
     rb_catch_up net st = Inr st"
  by (subst rb_catch_up.simps) auto

lemma rb_catch_up_Inr:
  "rb_catch_up net st = Inr st' \<Longrightarrow>
     length (rb_oldPop st') = length (rxn net) \<or> length (rb_projPop st') = length (rxn net)"
proof (induction net st rule: rb_catch_up.induct)
  case (1 net st)
  show ?case
  proof (cases "length (rb_oldPop st) \<noteq> length (rxn net) \<and> length (rb_projPop st) \<noteq> length (rxn net)")
    case True
    with "1.prems" obtain st1 where a: "rb_addRxn net st = Inr st1" and c: "rb_catch_up net st1 = Inr st'"
      by (subst (asm) rb_catch_up.simps) (auto split: sum.splits)
    from "1.IH"[OF True a c] show ?thesis .
  next
    case False
    with "1.prems" have "st' = st" by (subst (asm) rb_catch_up.simps) auto
    with False show ?thesis by auto
  qed
qed


lemma rb_catch_up_frame:
  "rb_catch_up net st = Inr st' \<Longrightarrow>
     \<exists>old proj. st' = st\<lparr>rb_oldPop := rb_oldPop st @ old, rb_projPop := rb_projPop st @ proj\<rparr>
        \<and> (length (rb_oldPop st) = length (rb_projPop st) \<longrightarrow> length old = length proj)"
proof (induction net st rule: rb_catch_up.induct)
  case (1 net st)
  show ?case
  proof (cases "length (rb_oldPop st) \<noteq> length (rxn net) \<and> length (rb_projPop st) \<noteq> length (rxn net)")
    case True
    with "1.prems" obtain st1 where a: "rb_addRxn net st = Inr st1" and c: "rb_catch_up net st1 = Inr st'"
      by (subst (asm) rb_catch_up.simps) (auto split: sum.splits)
    from "1.IH"[OF True a c] obtain old proj where
      h: "st' = st1\<lparr>rb_oldPop := rb_oldPop st1 @ old, rb_projPop := rb_projPop st1 @ proj\<rparr>"
         "length (rb_oldPop st1) = length (rb_projPop st1) \<longrightarrow> length old = length proj"
      by blast
    from rb_addRxn_Inr[OF a] h show ?thesis
      by (intro exI[of _ "[map (population net) (rxn net ! length (rb_oldPop st))] @ old"]
                exI[of _ "[replicate (length (rxn net ! length (rb_oldPop st))) 0] @ proj"]) auto
  next
    case False
    with "1.prems" have "st' = st" by (subst (asm) rb_catch_up.simps) auto
    then show ?thesis by (intro exI[of _ "[]"]) auto
  qed
qed

lemma rb_project_length [simp]:
  "length (rb_project net ac means sdevs old proj) = length proj"
  unfolding rb_project_def by simp


lemma rb_trial_kept:
  "rb_trial E net tau st = (ok, st') \<Longrightarrow> rb_kept st st'"
  unfolding rb_trial_def Let_def rb_kept_def by (auto split: prod.splits)

lemma rb_precheck_kept:
  fixes E :: "('rch, 'sch, 'bc, 'g) env"
  assumes "rb_precheck E net tau st = Some r"
  shows "(\<exists>n. fst r = tau * rb_p st ^ n) \<and> rb_kept st (snd r)"
proof (rule rb_precheck.raw_induct
    [where P = "\<lambda>E net tau st r. (\<exists>n. fst r = tau * rb_p st ^ n) \<and> rb_kept st (snd r)", OF _ assms])
  fix rec :: "('rch, 'sch, 'bc, 'g) env \<Rightarrow> network \<Rightarrow> real \<Rightarrow> ('rch, 'bc) rbPL
                \<Rightarrow> (real \<times> ('rch, 'bc) rbPL) option"
  fix E net tau st r
  assume IH: "\<And>E net tau st r. rec E net tau st = Some r \<Longrightarrow>
                (\<exists>n. fst r = tau * rb_p st ^ n) \<and> rb_kept st (snd r)"
    and step: "(case rb_trial E net tau st of
                  (ok, st') \<Rightarrow> if ok then Some (tau, st') else rec E net (tau * rb_p st') st') = Some r"
  obtain ok st1 where t: "rb_trial E net tau st = (ok, st1)" by (cases "rb_trial E net tau st")
  note k = rb_trial_kept[OF t]
  show "(\<exists>n. fst r = tau * rb_p st ^ n) \<and> rb_kept st (snd r)"
  proof (cases ok)
    case True
    with step t have "r = (tau, st1)" by simp
    moreover have "\<exists>n. tau = tau * rb_p st ^ n" by (rule exI[of _ 0]) simp
    ultimately show ?thesis using k by simp
  next
    case False
    with step t have "rec E net (tau * rb_p st1) st1 = Some r" by simp
    from IH[OF this] obtain n where
      g: "fst r = tau * rb_p st1 * rb_p st1 ^ n" "rb_kept st1 (snd r)"
      by blast
    from g(1) k have "fst r = tau * rb_p st ^ Suc n" by (simp add: rb_kept_def)
    moreover from g(2) k have "rb_kept st (snd r)" by (simp add: rb_kept_def)
    ultimately show ?thesis by blast
  qed
qed


lemma rb_addRxn_times_frame:
  "length (rb_oldPop st) = length (rb_projPop st) \<Longrightarrow>
   length (rb_oldPop st) + k \<le> length (rxn net) \<Longrightarrow>
     \<exists>old proj. rb_addRxn_times k net st
          = Inr (st\<lparr>rb_oldPop := rb_oldPop st @ old, rb_projPop := rb_projPop st @ proj\<rparr>)
        \<and> length old = k \<and> length proj = k"
proof (induction k arbitrary: st)
  case 0
  show ?case by (intro exI[of _ "[]"]) simp
next
  case (Suc k)
  let ?o = "map (population net) (rxn net ! length (rb_oldPop st))"
  let ?p = "replicate (length (rxn net ! length (rb_oldPop st))) (0::real)"
  let ?st1 = "st\<lparr>rb_oldPop := rb_oldPop st @ [?o], rb_projPop := rb_projPop st @ [?p]\<rparr>"
  from Suc.prems have a: "rb_addRxn net st = Inr ?st1"
    by (simp add: rb_addRxn_def Let_def)
  from Suc.prems have "length (rb_oldPop ?st1) = length (rb_projPop ?st1)"
    and "length (rb_oldPop ?st1) + k \<le> length (rxn net)" by simp_all
  from Suc.IH[OF this] obtain old proj where
    h: "rb_addRxn_times k net ?st1
          = Inr (?st1\<lparr>rb_oldPop := rb_oldPop ?st1 @ old, rb_projPop := rb_projPop ?st1 @ proj\<rparr>)"
       "length old = k" "length proj = k"
    by blast
  show ?case
    using a h by (intro exI[of _ "?o # old"] exI[of _ "?p # proj"]) simp
qed

lemma rb_project_row_length [simp]:
  "length (rb_project_row net ac means sdevs old v row) = length row"
  unfolding rb_project_row_def Let_def by simp

lemma rb_project_row_nth:
  "j < length row \<Longrightarrow> j < length (rxn net ! v) \<Longrightarrow>
     rb_project_row net ac means sdevs old v row ! j
       = old ! v ! j + means ! (rateSp ac ! v ! j) + sdevs ! (rateSp ac ! v ! j)"
  unfolding rb_project_row_def Let_def by (simp add: fold_upd_nth)

lemma rb_project_nth:
  "v < length proj \<Longrightarrow>
     rb_project net ac means sdevs old proj ! v = rb_project_row net ac means sdevs old v (proj ! v)"
  unfolding rb_project_def by (simp add: fold_upd_self_nth)

lemma rb_update_oldPop_length [simp]: "length (rb_update_oldPop net old) = length old"
  unfolding rb_update_oldPop_def by simp

lemma rb_update_row_length [simp]: "length (rb_update_row net v row) = length row"
  unfolding rb_update_row_def by simp

lemma rb_update_row_nth:
  "j < length row \<Longrightarrow> j < length (rxn net ! v) \<Longrightarrow>
     rb_update_row net v row ! j = population net (rxn net ! v ! j)"
  unfolding rb_update_row_def by (simp add: fold_upd_nth)

lemma rb_update_row_nth_beyond:
  "j < length row \<Longrightarrow> length (rxn net ! v) \<le> j \<Longrightarrow> rb_update_row net v row ! j = row ! j"
  unfolding rb_update_row_def by (simp add: fold_upd_nth)

lemma rb_update_in_range_nth:
  "rb_update_in_range net old \<Longrightarrow> v < length old \<Longrightarrow> length (rxn net ! v) \<le> length (old ! v)"
  unfolding rb_update_in_range_def by (auto simp: list_all2_conv_all_nth)

lemma rb_update_oldPop_row:
  "v < length old \<Longrightarrow> rb_update_oldPop net old ! v = rb_update_row net v (old ! v)"
  unfolding rb_update_oldPop_def by (simp add: fold_upd_self_nth)


subsection \<open>The scenario: construction and first call, reaction based\<close>

lemma scenario_new_rb:
  "rb_new scenario_env scenario_aCalc False (1/10) (1/2) (9/10) (3/2) (1/100) scenario_net
     = Inr scenario_rb"
  by (simp add: rb_new_def scenario_env_def scenario_net_def scenario_rb_def rb_addRxn_def)



lemma sqrt5_le: "sqrt 5 \<le> 5"
  by (rule real_le_lsqrt) simp_all

lemma sqrt5_gt: "2 < sqrt 5"
  by (rule real_less_rsqrt) simp

lemma scenario_calc_aEff [simp]:
  "calc_aEff scenario_env net tau scenario_aCalc = scenario_aCalc"
  by (simp add: scenario_env_def scenario_aCalc_def)

lemma scenario_aCalc_fields [simp]:
  "a_eff scenario_aCalc = [10]" "X_eff scenario_aCalc = [100]" "rateSp scenario_aCalc = [[0]]"
  by (simp_all add: scenario_aCalc_def)

lemma scenario_moments [simp]:
  "mean_dX scenario_aCalc tau 0 = 10 * tau"
  "sdev_dX scenario_aCalc tau 0 = (if 10 * tau < 0 then - sqrt (10 * tau) else sqrt (10 * tau))"
  by (simp_all add: mean_dX_def sdev_dX_def accum_dX_def scenario_aCalc_def Let_def)

lemma scenario_rb_trial_1:
  "rb_trial scenario_env scenario_net 1 (scenario_rb\<lparr>rb_preCalc := False\<rparr>)
     = (False, scenario_rb_at (110 + sqrt 10) 1)"
  by (simp add: rb_trial_def scenario_rb_def scenario_rb_at_def
      rb_project_def rb_project_row_def mean_dX_array_def sdev_dX_array_def
      scenario_env_def [THEN arg_cong, of RBChecker_check] scenario_net_def
      scenario_RBChecker_check_def Let_def)

lemma scenario_rb_trial_2:
  "rb_trial scenario_env scenario_net (1/2) (scenario_rb_at (110 + sqrt 10) 1)
     = (True, scenario_rb_at (105 + sqrt 5) 2)"
  using sqrt5_le
  by (simp add: rb_trial_def scenario_rb_def scenario_rb_at_def
      rb_project_def rb_project_row_def mean_dX_array_def sdev_dX_array_def
      scenario_env_def [THEN arg_cong, of RBChecker_check] scenario_net_def
      scenario_RBChecker_check_def Let_def)

lemma scenario_rb_precheck:
  "rb_precheck scenario_env scenario_net 1 (scenario_rb\<lparr>rb_preCalc := False\<rparr>)
     = Some (1/2, scenario_rb_at (105 + sqrt 5) 2)"
proof -
  have p: "rb_p (scenario_rb_at x n) = 1/2" for x n
    by (simp add: scenario_rb_at_def scenario_rb_def)
  have "rb_precheck scenario_env scenario_net (1/2) (scenario_rb_at (110 + sqrt 10) 1)
          = Some (1/2, scenario_rb_at (105 + sqrt 5) 2)"
    by (subst rb_precheck.simps, subst scenario_rb_trial_2) simp
  then show ?thesis
    by (subst rb_precheck.simps, subst scenario_rb_trial_1) (simp add: p)
qed

lemma scenario_rb_getNewTau:
  "rb_getNewTau scenario_env scenario_net tau scenario_rb
     = Some (Inr (1/2, scenario_rb_at (105 + sqrt 5) 2))"
proof -
  have c: "rb_catch_up scenario_net scenario_rb = Inr scenario_rb"
    by (rule rb_catch_up_synced) (simp add: scenario_net_def scenario_rb_def)
  have s: "rb_start_tau scenario_env scenario_net tau scenario_rb = 1"
    by (simp add: rb_start_tau_def scenario_rb_def scenario_env_def)
  have "rb_preCalc scenario_rb" by (simp add: scenario_rb_def)
  then show ?thesis
    by (simp add: rb_getNewTau_def c s scenario_rb_precheck)
qed


subsection \<open>Growth of the registry, species based\<close>

lemma sb_addSpecies_Inr:
  "sb_addSpecies E net st = Inr st' \<Longrightarrow>
     length (sb_oldPop st) < length (sp net) \<and> length (sb_old_g st) = length (sb_oldPop st)
     \<and> length (sb_projPop st) = length (sb_oldPop st) \<and>
     st' = st\<lparr>sb_oldPop := sb_oldPop st @ [population net (sp net ! length (sb_oldPop st))],
              sb_old_g := sb_old_g st @ [get_g E net (sb_gGet st) (length (sb_oldPop st))],
              sb_projPop := sb_projPop st @ [0]\<rparr>"
  by (auto simp: sb_addSpecies_def Let_def split: if_splits)

lemma sb_catch_up_synced:
  "length (sb_oldPop st) = length (sp net) \<or> length (sb_old_g st) = length (sp net)
     \<or> length (sb_projPop st) = length (sp net) \<Longrightarrow>
     sb_catch_up E net st = Inr st"
  by (subst sb_catch_up.simps) auto

lemma sb_catch_up_Inr:
  "sb_catch_up E net st = Inr st' \<Longrightarrow>
     length (sb_oldPop st') = length (sp net) \<or> length (sb_old_g st') = length (sp net)
     \<or> length (sb_projPop st') = length (sp net)"
proof (induction E net st rule: sb_catch_up.induct)
  case (1 E net st)
  show ?case
  proof (cases "length (sb_oldPop st) \<noteq> length (sp net) \<and> length (sb_old_g st) \<noteq> length (sp net)
                 \<and> length (sb_projPop st) \<noteq> length (sp net)")
    case True
    with "1.prems" obtain st1 where a: "sb_addSpecies E net st = Inr st1"
      and c: "sb_catch_up E net st1 = Inr st'"
      by (subst (asm) sb_catch_up.simps) (auto split: sum.splits)
    from "1.IH"[OF True a c] show ?thesis .
  next
    case False
    with "1.prems" have "st' = st" by (subst (asm) sb_catch_up.simps) auto
    with False show ?thesis by auto
  qed
qed

lemma sb_catch_up_frame:
  "sb_catch_up E net st = Inr st' \<Longrightarrow>
     \<exists>old g proj. st' = st\<lparr>sb_oldPop := sb_oldPop st @ old, sb_old_g := sb_old_g st @ g,
                             sb_projPop := sb_projPop st @ proj\<rparr>
        \<and> length g = length old \<and> length proj = length old"
proof (induction E net st rule: sb_catch_up.induct)
  case (1 E net st)
  show ?case
  proof (cases "length (sb_oldPop st) \<noteq> length (sp net) \<and> length (sb_old_g st) \<noteq> length (sp net)
                 \<and> length (sb_projPop st) \<noteq> length (sp net)")
    case True
    with "1.prems" obtain st1 where a: "sb_addSpecies E net st = Inr st1"
      and c: "sb_catch_up E net st1 = Inr st'"
      by (subst (asm) sb_catch_up.simps) (auto split: sum.splits)
    from "1.IH"[OF True a c] obtain old g proj where
      h: "st' = st1\<lparr>sb_oldPop := sb_oldPop st1 @ old, sb_old_g := sb_old_g st1 @ g,
                    sb_projPop := sb_projPop st1 @ proj\<rparr>"
         "length g = length old" "length proj = length old"
      by blast
    from sb_addSpecies_Inr[OF a] h show ?thesis
      by (intro exI[of _ "population net (sp net ! length (sb_oldPop st)) # old"]
                exI[of _ "get_g E net (sb_gGet st) (length (sb_oldPop st)) # g"]
                exI[of _ "0 # proj"]) auto
  next
    case False
    with "1.prems" have "st' = st" by (subst (asm) sb_catch_up.simps) auto
    then show ?thesis by (intro exI[of _ "[]"]) auto
  qed
qed

lemma sb_addSpecies_times_frame:
  "length (sb_oldPop st) = length (sb_old_g st) \<Longrightarrow>
   length (sb_oldPop st) = length (sb_projPop st) \<Longrightarrow>
   length (sb_oldPop st) + k \<le> length (sp net) \<Longrightarrow>
     \<exists>old g proj. sb_addSpecies_times k E net st
          = Inr (st\<lparr>sb_oldPop := sb_oldPop st @ old, sb_old_g := sb_old_g st @ g,
                     sb_projPop := sb_projPop st @ proj\<rparr>)
        \<and> length old = k \<and> length g = k \<and> length proj = k"
proof (induction k arbitrary: st)
  case 0
  show ?case by (intro exI[of _ "[]"]) simp
next
  case (Suc k)
  let ?o = "population net (sp net ! length (sb_oldPop st))"
  let ?g = "get_g E net (sb_gGet st) (length (sb_oldPop st))"
  let ?st1 = "st\<lparr>sb_oldPop := sb_oldPop st @ [?o], sb_old_g := sb_old_g st @ [?g],
                  sb_projPop := sb_projPop st @ [0]\<rparr>"
  from Suc.prems have a: "sb_addSpecies E net st = Inr ?st1"
    by (simp add: sb_addSpecies_def Let_def)
  from Suc.prems have "length (sb_oldPop ?st1) = length (sb_old_g ?st1)"
    and "length (sb_oldPop ?st1) = length (sb_projPop ?st1)"
    and "length (sb_oldPop ?st1) + k \<le> length (sp net)" by simp_all
  from Suc.IH[OF this] obtain old g proj where
    h: "sb_addSpecies_times k E net ?st1
          = Inr (?st1\<lparr>sb_oldPop := sb_oldPop ?st1 @ old, sb_old_g := sb_old_g ?st1 @ g,
                       sb_projPop := sb_projPop ?st1 @ proj\<rparr>)"
       "length old = k" "length g = k" "length proj = k"
    by blast
  show ?case
    using a h by (intro exI[of _ "?o # old"] exI[of _ "?g # g"] exI[of _ "0 # proj"]) simp
qed

lemma sb_project_length [simp]: "length (sb_project means sdevs old proj) = length proj"
  unfolding sb_project_def by simp

lemma sb_project_nth:
  "j < length proj \<Longrightarrow> sb_project means sdevs old proj ! j = old ! j + means ! j + sdevs ! j"
  unfolding sb_project_def by (simp add: fold_upd_nth)

lemma sb_trial_kept:
  "sb_trial E net tau st = (ok, st') \<Longrightarrow> sb_kept st st'"
  unfolding sb_trial_def Let_def sb_kept_def by (auto split: prod.splits)

lemma sb_precheck_kept:
  fixes E :: "('rch, 'sch, 'bc, 'g) env"
  assumes "sb_precheck E net tau st = Some r"
  shows "(\<exists>n. fst r = tau * sb_p st ^ n) \<and> sb_kept st (snd r)"
proof (rule sb_precheck.raw_induct
    [where P = "\<lambda>E net tau st r. (\<exists>n. fst r = tau * sb_p st ^ n) \<and> sb_kept st (snd r)", OF _ assms])
  fix rec :: "('rch, 'sch, 'bc, 'g) env \<Rightarrow> network \<Rightarrow> real \<Rightarrow> ('sch, 'bc, 'g) sbPL
                \<Rightarrow> (real \<times> ('sch, 'bc, 'g) sbPL) option"
  fix E net tau st r
  assume IH: "\<And>E net tau st r. rec E net tau st = Some r \<Longrightarrow>
                (\<exists>n. fst r = tau * sb_p st ^ n) \<and> sb_kept st (snd r)"
    and step: "(case sb_trial E net tau st of
                  (ok, st') \<Rightarrow> if ok then Some (tau, st') else rec E net (tau * sb_p st') st') = Some r"
  obtain ok st1 where t: "sb_trial E net tau st = (ok, st1)" by (cases "sb_trial E net tau st")
  note k = sb_trial_kept[OF t]
  show "(\<exists>n. fst r = tau * sb_p st ^ n) \<and> sb_kept st (snd r)"
  proof (cases ok)
    case True
    with step t have "r = (tau, st1)" by simp
    moreover have "\<exists>n. tau = tau * sb_p st ^ n" by (rule exI[of _ 0]) simp
    ultimately show ?thesis using k by simp
  next
    case False
    with step t have "rec E net (tau * sb_p st1) st1 = Some r" by simp
    from IH[OF this] obtain n where
      g: "fst r = tau * sb_p st1 * sb_p st1 ^ n" "sb_kept st1 (snd r)"
      by blast
    from g(1) k have "fst r = tau * sb_p st ^ Suc n" by (simp add: sb_kept_def)
    moreover from g(2) k have "sb_kept st (snd r)" by (simp add: sb_kept_def)
    ultimately show ?thesis by blast
  qed
qed

lemma fold_upd_pair:
  "fold (\<lambda>j (old, g). (old[j := f j], g[j := h j])) js (old, g)
     = (fold (\<lambda>j r. r[j := f j]) js old, fold (\<lambda>j r. r[j := h j]) js g)"
  by (induction js arbitrary: old g) auto

lemma sb_update_arrays_eq:
  "sb_update_arrays E net gg (old, g)
     = (fold (\<lambda>j r. r[j := population net (sp net ! j)]) [0..<length old] old,
        fold (\<lambda>j r. r[j := get_g E net gg j]) [0..<length old] g)"
  unfolding sb_update_arrays_def by (simp add: fold_upd_pair)

subsection \<open>Classification, array sizes and construction\<close>

lemma rb_check_result:
  assumes "rb_catch_up net st = Inr st1"
    and "RBChecker_check E net (rb_w st1) (a_eff (rb_aCalc st1)) (rb_oldPop st1) True (rb_ch st1)
           = (s, c1)"
    and "RBChecker_check E net 1 (a_eff (rb_aCalc st1)) (rb_oldPop st1) True c1 = (l, c2)"
  shows "rb_check E net st
           = Inr (s \<or> l, st1\<lparr>rb_substantially := s, rb_ch := if s then c1 else c2\<rparr>)"
  using assms by (simp add: rb_check_def Let_def)

lemma sb_check_result:
  assumes "sb_catch_up E net st = Inr st1"
    and "SBChecker_check E net (sb_w st1) (X_eff (sb_aCalc st1)) (sb_oldPop st1) (sb_old_g st1)
           True (sb_ch st1) = (s, c1)"
    and "SBChecker_check E net 1 (X_eff (sb_aCalc st1)) (sb_oldPop st1) (sb_old_g st1) True c1
           = (l, c2)"
  shows "sb_check E net st
           = Inr (s \<or> l, st1\<lparr>sb_substantially := s, sb_ch := if s then c1 else c2\<rparr>)"
  using assms by (simp add: sb_check_def Let_def)







lemma sb_update_arrays_lengths:
  "sb_update_arrays E net gg (old, g) = (old', g') \<Longrightarrow> length old' = length old \<and> length g' = length g"
  by (auto simp: sb_update_arrays_eq)

lemma rb_update_Inr:
  "rb_update net st = Inr st' \<Longrightarrow>
     st' = st\<lparr>rb_oldPop := rb_update_oldPop net (rb_oldPop st)\<rparr>
     \<and> length (rb_oldPop st) = length (rxn net) \<and> length (rb_projPop st) = length (rxn net)"
  by (auto simp: rb_update_def Let_def split: if_splits)

lemma rb_update_Inr_in_range:
  "rb_update net st = Inr st' \<Longrightarrow> rb_update_in_range net (rb_oldPop st)"
  by (auto simp: rb_update_def Let_def split: if_splits)

lemma sb_update_Inr:
  "sb_update E net st = Inr st' \<Longrightarrow>
     st' = st\<lparr>sb_oldPop := fst (sb_update_arrays E net (sb_gGet st) (sb_oldPop st, sb_old_g st)),
              sb_old_g := snd (sb_update_arrays E net (sb_gGet st) (sb_oldPop st, sb_old_g st))\<rparr>
     \<and> length (sb_oldPop st) = length (sp net) \<and> length (sb_old_g st) = length (sp net)
     \<and> length (sb_projPop st) = length (sp net)"
  by (auto simp: sb_update_def sb_update_arrays_eq Let_def split: if_splits)




lemma rb_copy_Inr:
  "\<exists>old proj. rb_copy ac0 s0 net orig =
      Inr \<lparr>rb_p = rb_p orig, rb_pp = rb_pp orig, rb_q = rb_q orig, rb_w = rb_w orig,
        rb_preCalc = True, rb_substantially = s0, rb_oldPop = old, rb_projPop = proj,
        rb_ch = rb_ch orig, rb_bc = rb_bc orig, rb_aCalc = ac0\<rparr>
      \<and> length old = length (rxn net) \<and> length proj = length (rxn net)"
  using rb_addRxn_times_frame[of "\<lparr>rb_p = rb_p orig, rb_pp = rb_pp orig, rb_q = rb_q orig,
        rb_w = rb_w orig, rb_preCalc = True, rb_substantially = s0, rb_oldPop = [], rb_projPop = [],
        rb_ch = rb_ch orig, rb_bc = rb_bc orig, rb_aCalc = ac0\<rparr>" "length (rxn net)" net]
  by (auto simp: rb_copy_def)


lemma sb_copy_Inr:
  "\<exists>old g proj. sb_copy E ac0 s0 net orig =
      Inr \<lparr>sb_p = sb_p orig, sb_pp = sb_pp orig, sb_q = sb_q orig, sb_w = sb_w orig,
        sb_preCalc = True, sb_substantially = s0, sb_oldPop = old, sb_old_g = g, sb_projPop = proj,
        sb_ch = sb_ch orig, sb_bc = sb_bc orig, sb_gGet = sb_gGet orig, sb_aCalc = ac0\<rparr>
      \<and> length old = length (sp net) \<and> length g = length (sp net) \<and> length proj = length (sp net)"
  using sb_addSpecies_times_frame[of "\<lparr>sb_p = sb_p orig, sb_pp = sb_pp orig, sb_q = sb_q orig,
        sb_w = sb_w orig, sb_preCalc = True, sb_substantially = s0, sb_oldPop = [], sb_old_g = [],
        sb_projPop = [], sb_ch = sb_ch orig, sb_bc = sb_bc orig, sb_gGet = sb_gGet orig,
        sb_aCalc = ac0\<rparr>" "length (sp net)" net E]
  by (auto simp: sb_copy_def)

subsection \<open>The scenario: species based, classification, update and copies\<close>

lemma scenario_sb_trial_1:
  "sb_trial scenario_env scenario_net 1 (scenario_sb\<lparr>sb_preCalc := False\<rparr>)
     = (False, scenario_sb_at (110 + sqrt 10) 1)"
  by (simp add: sb_trial_def scenario_sb_def scenario_sb_at_def
      sb_project_def mean_dX_array_def sdev_dX_array_def
      scenario_env_def [THEN arg_cong, of SBChecker_check] scenario_net_def
      scenario_SBChecker_check_def Let_def)

lemma scenario_sb_trial_2:
  "sb_trial scenario_env scenario_net (1/2) (scenario_sb_at (110 + sqrt 10) 1)
     = (True, scenario_sb_at (105 + sqrt 5) 2)"
  using sqrt5_le
  by (simp add: sb_trial_def scenario_sb_def scenario_sb_at_def
      sb_project_def mean_dX_array_def sdev_dX_array_def
      scenario_env_def [THEN arg_cong, of SBChecker_check] scenario_net_def
      scenario_SBChecker_check_def Let_def)

lemma scenario_sb_precheck:
  "sb_precheck scenario_env scenario_net 1 (scenario_sb\<lparr>sb_preCalc := False\<rparr>)
     = Some (1/2, scenario_sb_at (105 + sqrt 5) 2)"
proof -
  have p: "sb_p (scenario_sb_at x n) = 1/2" for x n
    by (simp add: scenario_sb_at_def scenario_sb_def)
  have "sb_precheck scenario_env scenario_net (1/2) (scenario_sb_at (110 + sqrt 10) 1)
          = Some (1/2, scenario_sb_at (105 + sqrt 5) 2)"
    by (subst sb_precheck.simps, subst scenario_sb_trial_2) simp
  then show ?thesis
    by (subst sb_precheck.simps, subst scenario_sb_trial_1) (simp add: p)
qed

lemma scenario_sb_getNewTau:
  "sb_getNewTau scenario_env scenario_net tau scenario_sb
     = Some (Inr (1/2, scenario_sb_at (105 + sqrt 5) 2))"
proof -
  have c: "sb_catch_up scenario_env scenario_net scenario_sb = Inr scenario_sb"
    by (rule sb_catch_up_synced) (simp add: scenario_net_def scenario_sb_def)
  have s: "sb_start_tau scenario_env scenario_net tau scenario_sb = 1"
    by (simp add: sb_start_tau_def scenario_sb_def scenario_env_def)
  have "sb_preCalc scenario_sb" by (simp add: scenario_sb_def)
  then show ?thesis
    by (simp add: sb_getNewTau_def c s scenario_sb_precheck)
qed

lemma scenario_rb_at_catch_up:
  "rb_catch_up scenario_net (scenario_rb_at x n) = Inr (scenario_rb_at x n)"
  "rb_catch_up scenario_net_leapt (scenario_rb_at x n) = Inr (scenario_rb_at x n)"
  by (rule rb_catch_up_synced,
      simp add: scenario_net_def scenario_net_leapt_def scenario_rb_def scenario_rb_at_def)+

lemma scenario_sb_at_catch_up:
  "sb_catch_up E scenario_net (scenario_sb_at x n) = Inr (scenario_sb_at x n)"
  "sb_catch_up E scenario_net_leapt (scenario_sb_at x n) = Inr (scenario_sb_at x n)"
  by (rule sb_catch_up_synced,
      simp add: scenario_net_def scenario_net_leapt_def scenario_sb_def scenario_sb_at_def)+

lemma scenario_rb_checks:
  "RBChecker_check scenario_env scenario_net_leapt (1/100) a [[100]] True (1/10, n)
     = (False, (1/10, Suc n))"
  "RBChecker_check scenario_env scenario_net_leapt 1 a [[100]] True (1/10, n)
     = (True, (1/10, Suc n))"
  "RBChecker_check scenario_env scenario_net (1/100) a [[100]] True (1/10, n)
     = (True, (1/10, Suc n))"
  by (simp_all add: scenario_env_def scenario_RBChecker_check_def scenario_net_leapt_def
      scenario_net_def)

lemma scenario_sb_checks:
  "SBChecker_check scenario_env scenario_net_leapt (1/100) X [100] [1] True (1/10, n)
     = (False, (1/10, Suc n))"
  "SBChecker_check scenario_env scenario_net_leapt 1 X [100] [1] True (1/10, n)
     = (True, (1/10, Suc n))"
  "SBChecker_check scenario_env scenario_net (1/100) X [100] [1] True (1/10, n)
     = (True, (1/10, Suc n))"
  by (simp_all add: scenario_env_def scenario_SBChecker_check_def scenario_net_leapt_def
      scenario_net_def)

lemma scenario_rb_at_fields [simp]:
  "rb_w (scenario_rb_at x n) = 1/100" "rb_oldPop (scenario_rb_at x n) = [[100]]"
  "rb_ch (scenario_rb_at x n) = (1/10, n)" "rb_projPop (scenario_rb_at x n) = [[x]]"
  "rb_preCalc (scenario_rb_at x n) = False" "rb_substantially (scenario_rb_at x n) = False"
  "rb_p (scenario_rb_at x n) = 1/2" "rb_pp (scenario_rb_at x n) = 9/10"
  "rb_q (scenario_rb_at x n) = 3/2" "rb_aCalc (scenario_rb_at x n) = scenario_aCalc"
  by (simp_all add: scenario_rb_at_def scenario_rb_def)

lemma scenario_sb_at_fields [simp]:
  "sb_w (scenario_sb_at x n) = 1/100" "sb_oldPop (scenario_sb_at x n) = [100]"
  "sb_old_g (scenario_sb_at x n) = [1]"
  "sb_ch (scenario_sb_at x n) = (1/10, n)" "sb_projPop (scenario_sb_at x n) = [x]"
  "sb_preCalc (scenario_sb_at x n) = False" "sb_substantially (scenario_sb_at x n) = False"
  "sb_p (scenario_sb_at x n) = 1/2" "sb_pp (scenario_sb_at x n) = 9/10"
  "sb_q (scenario_sb_at x n) = 3/2" "sb_aCalc (scenario_sb_at x n) = scenario_aCalc"
  "sb_gGet (scenario_sb_at x n) = ()"
  by (simp_all add: scenario_sb_at_def scenario_sb_def)


lemma scenario_rb_check_substantially:
  "rb_check scenario_env scenario_net (scenario_rb_at x n)
     = Inr (True, (scenario_rb_at x (Suc n))\<lparr>rb_substantially := True\<rparr>)"
  by (simp add: rb_check_def scenario_rb_at_catch_up scenario_rb_checks)
     (simp add: scenario_rb_at_def scenario_rb_def)


lemma scenario_sb_check_substantially:
  "sb_check scenario_env scenario_net (scenario_sb_at x n)
     = Inr (True, (scenario_sb_at x (Suc n))\<lparr>sb_substantially := True\<rparr>)"
  by (simp add: sb_check_def scenario_sb_at_catch_up scenario_sb_checks)
     (simp add: scenario_sb_at_def scenario_sb_def)

lemma scenario_rb_update:
  "rb_update scenario_net_leapt (scenario_rb_at x n)
     = Inr ((scenario_rb_at x n)\<lparr>rb_oldPop := [[105]]\<rparr>)"
  by (simp add: rb_update_def rb_update_in_range_def rb_update_oldPop_def rb_update_row_def
      scenario_net_leapt_def)

lemma scenario_sb_update:
  "sb_update scenario_env scenario_net_leapt (scenario_sb_at x n)
     = Inr ((scenario_sb_at x n)\<lparr>sb_oldPop := [105]\<rparr>)"
  by (simp add: sb_update_def sb_update_in_range_def sb_update_arrays_def scenario_net_leapt_def
      scenario_env_def)

lemma scenario_rb_copy:
  "rb_copy scenario_aCalc False scenario_net (scenario_rb_at x n)
     = Inr (scenario_rb\<lparr>rb_ch := (1/10, n)\<rparr>)"
  by (simp add: rb_copy_def scenario_net_def rb_addRxn_def scenario_rb_def scenario_rb_at_def)

lemma scenario_sb_copy:
  "sb_copy scenario_env scenario_aCalc False scenario_net (scenario_sb_at x n)
     = Inr (scenario_sb\<lparr>sb_ch := (1/10, n)\<rparr>)"
  by (simp add: sb_copy_def scenario_net_def sb_addSpecies_def scenario_sb_def scenario_env_def
      scenario_sb_at_def)



subsection \<open>The baseline after update and the tau that enters the pre-check\<close>

lemma fold_upd_all:
  "length r = n \<Longrightarrow> fold (\<lambda>j r. r[j := f j]) [0..<n] r = map f [0..<n]"
  by (rule nth_equalityI) (simp_all add: fold_upd_nth)

lemma sb_update_values:
  assumes "sb_update E net t = Inr t'"
  shows "sb_oldPop t' = map (population net) (sp net)"
    and "sb_old_g t' = map (get_g E net (sb_gGet t)) [0..<length (sp net)]"
    and "t' = t\<lparr>sb_oldPop := sb_oldPop t', sb_old_g := sb_old_g t'\<rparr>"
proof -
  note u = sb_update_Inr[OF assms]
  have l: "length (sb_oldPop t) = length (sp net)" "length (sb_old_g t) = length (sp net)"
    by (rule u[THEN conjunct2, THEN conjunct1], rule u[THEN conjunct2, THEN conjunct2, THEN conjunct1])
  have A: "sb_update_arrays E net (sb_gGet t) (sb_oldPop t, sb_old_g t)
             = (map (\<lambda>j. population net (sp net ! j)) [0..<length (sp net)],
                map (get_g E net (sb_gGet t)) [0..<length (sp net)])"
    by (simp add: sb_update_arrays_eq fold_upd_all l)
  have "t' = t\<lparr>sb_oldPop := fst (sb_update_arrays E net (sb_gGet t) (sb_oldPop t, sb_old_g t)),
              sb_old_g := snd (sb_update_arrays E net (sb_gGet t) (sb_oldPop t, sb_old_g t))\<rparr>"
    by (rule u[THEN conjunct1])
  then have t': "t' = t\<lparr>sb_oldPop := map (\<lambda>j. population net (sp net ! j)) [0..<length (sp net)],
                           sb_old_g := map (get_g E net (sb_gGet t)) [0..<length (sp net)]\<rparr>"
    unfolding A by simp
  have m: "map (\<lambda>j. population net (sp net ! j)) [0..<length (sp net)] = map (population net) (sp net)"
    by (rule nth_equalityI) simp_all
  from t' m show "sb_oldPop t' = map (population net) (sp net)" by simp
  from t' show "sb_old_g t' = map (get_g E net (sb_gGet t)) [0..<length (sp net)]" by simp
  from t' show "t' = t\<lparr>sb_oldPop := sb_oldPop t', sb_old_g := sb_old_g t'\<rparr>" by simp
qed

lemma rb_update_values:
  assumes "rb_update net st = Inr st'"
  shows "\<forall>v<length (rb_oldPop st'). \<forall>j<length (rb_oldPop st' ! v).
           j < length (rxn net ! v) \<longrightarrow> rb_oldPop st' ! v ! j = population net (rxn net ! v ! j)"
    and "length (rb_oldPop st') = length (rxn net)"
    and "st' = st\<lparr>rb_oldPop := rb_oldPop st'\<rparr>"
proof -
  note u = rb_update_Inr[OF assms]
  from u have o: "rb_oldPop st' = rb_update_oldPop net (rb_oldPop st)" by simp
  show "\<forall>v<length (rb_oldPop st'). \<forall>j<length (rb_oldPop st' ! v).
           j < length (rxn net ! v) \<longrightarrow> rb_oldPop st' ! v ! j = population net (rxn net ! v ! j)"
    unfolding o by (simp add: rb_update_oldPop_row rb_update_row_nth)
  from u o show "length (rb_oldPop st') = length (rxn net)" by simp
  from u show "st' = st\<lparr>rb_oldPop := rb_oldPop st'\<rparr>" by simp
qed

lemma rb_catch_up_flags:
  assumes "rb_catch_up net st = Inr st1"
  shows "rb_preCalc st1 = rb_preCalc st" "rb_substantially st1 = rb_substantially st"
    "rb_p st1 = rb_p st" "rb_pp st1 = rb_pp st" "rb_q st1 = rb_q st" "rb_w st1 = rb_w st"
proof -
  from rb_catch_up_frame[OF assms] obtain old proj where
    e: "st1 = st\<lparr>rb_oldPop := rb_oldPop st @ old, rb_projPop := rb_projPop st @ proj\<rparr>" by blast
  show "rb_preCalc st1 = rb_preCalc st" "rb_substantially st1 = rb_substantially st"
    "rb_p st1 = rb_p st" "rb_pp st1 = rb_pp st" "rb_q st1 = rb_q st" "rb_w st1 = rb_w st"
    by (simp_all add: e)
qed

lemma sb_catch_up_flags:
  assumes "sb_catch_up E net st = Inr st1"
  shows "sb_preCalc st1 = sb_preCalc st" "sb_substantially st1 = sb_substantially st"
    "sb_p st1 = sb_p st" "sb_pp st1 = sb_pp st" "sb_q st1 = sb_q st" "sb_w st1 = sb_w st"
proof -
  from sb_catch_up_frame[OF assms] obtain old g proj where
    e: "st1 = st\<lparr>sb_oldPop := sb_oldPop st @ old, sb_old_g := sb_old_g st @ g,
                   sb_projPop := sb_projPop st @ proj\<rparr>" by blast
  show "sb_preCalc st1 = sb_preCalc st" "sb_substantially st1 = sb_substantially st"
    "sb_p st1 = sb_p st" "sb_pp st1 = sb_pp st" "sb_q st1 = sb_q st" "sb_w st1 = sb_w st"
    by (simp_all add: e)
qed

lemma rb_getNewTau_start:
  assumes "rb_catch_up net st = Inr st1"
  shows "rb_getNewTau E net tau st
           = map_option Inr (rb_precheck E net (rb_start_tau E net tau st) (st1\<lparr>rb_preCalc := False\<rparr>))"
proof -
  note f = rb_catch_up_flags[OF assms]
  have s: "rb_start_tau E net tau st1 = rb_start_tau E net tau st"
    by (simp add: rb_start_tau_def f)
  have "(if rb_preCalc st1 then st1\<lparr>rb_preCalc := False\<rparr> else st1) = st1\<lparr>rb_preCalc := False\<rparr>"
    by (cases st1) simp
  then show ?thesis by (simp only: rb_getNewTau_def assms s sum.case)
qed

lemma sb_getNewTau_start:
  assumes "sb_catch_up E net st = Inr st1"
  shows "sb_getNewTau E net tau st
           = map_option Inr (sb_precheck E net (sb_start_tau E net tau st) (st1\<lparr>sb_preCalc := False\<rparr>))"
proof -
  note f = sb_catch_up_flags[OF assms]
  have s: "sb_start_tau E net tau st1 = sb_start_tau E net tau st"
    by (simp add: sb_start_tau_def f)
  have "(if sb_preCalc st1 then st1\<lparr>sb_preCalc := False\<rparr> else st1) = st1\<lparr>sb_preCalc := False\<rparr>"
    by (cases st1) simp
  then show ?thesis by (simp only: sb_getNewTau_def assms s sum.case)
qed

lemma rb_getNewTau_result:
  assumes "rb_getNewTau E net tau st = Some (Inr (tau', st'))"
  shows "(\<exists>n. tau' = rb_start_tau E net tau st * rb_p st ^ n) \<and> \<not> rb_preCalc st'"
proof -
  from assms obtain st1 where c: "rb_catch_up net st = Inr st1"
    by (auto simp: rb_getNewTau_def split: sum.splits)
  note f = rb_catch_up_flags[OF c]
  from assms have "rb_precheck E net (rb_start_tau E net tau st) (st1\<lparr>rb_preCalc := False\<rparr>)
      = Some (tau', st')"
    unfolding rb_getNewTau_start[OF c] by auto
  from rb_precheck_kept[OF this] f show ?thesis by (simp add: rb_kept_def)
qed

lemma sb_getNewTau_result:
  assumes "sb_getNewTau E net tau st = Some (Inr (tau', st'))"
  shows "(\<exists>n. tau' = sb_start_tau E net tau st * sb_p st ^ n) \<and> \<not> sb_preCalc st'"
proof -
  from assms obtain st1 where c: "sb_catch_up E net st = Inr st1"
    by (auto simp: sb_getNewTau_def split: sum.splits)
  note f = sb_catch_up_flags[OF c]
  from assms have "sb_precheck E net (sb_start_tau E net tau st) (st1\<lparr>sb_preCalc := False\<rparr>)
      = Some (tau', st')"
    unfolding sb_getNewTau_start[OF c] by auto
  from sb_precheck_kept[OF this] f show ?thesis by (simp add: sb_kept_def)
qed


lemma rb_precheck_accept:
  "rb_trial E net tau st = (True, st') \<Longrightarrow> rb_precheck E net tau st = Some (tau, st')"
  by (subst rb_precheck.simps) simp

lemma rb_precheck_reject:
  "rb_trial E net tau st = (False, st') \<Longrightarrow>
     rb_precheck E net tau st = rb_precheck E net (tau * rb_p st') st'"
  by (subst rb_precheck.simps) simp

lemma sb_precheck_accept:
  "sb_trial E net tau st = (True, st') \<Longrightarrow> sb_precheck E net tau st = Some (tau, st')"
  by (subst sb_precheck.simps) simp

lemma sb_precheck_reject:
  "sb_trial E net tau st = (False, st') \<Longrightarrow>
     sb_precheck E net tau st = sb_precheck E net (tau * sb_p st') st'"
  by (subst sb_precheck.simps) simp

subsection \<open>The scenario: later calls\<close>

lemma scenario_rb_trial:
  assumes "rb_aCalc S = scenario_aCalc" "rb_oldPop S = [[b]]" "rb_projPop S = [[x]]"
    and "rxn N = [[0]]" "population N 0 = b" "0 \<le> tau"
  shows "rb_trial scenario_env N tau S
           = (10 * tau + sqrt (10 * tau) \<le> fst (rb_ch S) * b,
              S\<lparr>rb_aCalc := scenario_aCalc, rb_projPop := [[b + 10 * tau + sqrt (10 * tau)]],
                rb_ch := (fst (rb_ch S), Suc (snd (rb_ch S)))\<rparr>)"
proof -
  from assms(6) have "\<bar>10 * tau + sqrt (10 * tau)\<bar> = 10 * tau + sqrt (10 * tau)" by simp
  with assms show ?thesis
    by (simp add: rb_trial_def rb_project_def rb_project_row_def mean_dX_array_def
        sdev_dX_array_def scenario_env_def [THEN arg_cong, of RBChecker_check]
        scenario_RBChecker_check_def Let_def)
qed

lemma scenario_sb_trial:
  assumes "sb_aCalc S = scenario_aCalc" "sb_oldPop S = [b]" "sb_old_g S = [1]" "sb_projPop S = [x]"
    and "sp N = [0]" "population N 0 = b" "0 \<le> tau"
  shows "sb_trial scenario_env N tau S
           = (10 * tau + sqrt (10 * tau) \<le> fst (sb_ch S) * b,
              S\<lparr>sb_aCalc := scenario_aCalc, sb_projPop := [b + 10 * tau + sqrt (10 * tau)],
                sb_ch := (fst (sb_ch S), Suc (snd (sb_ch S)))\<rparr>)"
proof -
  from assms(7) have "\<bar>10 * tau + sqrt (10 * tau)\<bar> = 10 * tau + sqrt (10 * tau)" by simp
  with assms show ?thesis
    by (simp add: sb_trial_def sb_project_def mean_dX_array_def
        sdev_dX_array_def scenario_env_def [THEN arg_cong, of SBChecker_check]
        scenario_SBChecker_check_def Let_def)
qed


lemma scenario_sqrt_facts:
  "\<not> 10 + sqrt 10 \<le> (10::real)" "sqrt (9/2) \<le> 6" "5/2 < sqrt (15/2)" "sqrt (15/4) \<le> 25/4"
proof -
  have "0 < sqrt 10" by simp
  then show "\<not> 10 + sqrt 10 \<le> (10::real)" by simp
  show "sqrt (9/2) \<le> 6" by (rule real_le_lsqrt) simp_all
  show "5/2 < sqrt (15/2)" by (rule real_less_rsqrt) (simp add: power2_eq_square)
  show "sqrt (15/4) \<le> 25/4" by (rule real_le_lsqrt) (simp_all add: power2_eq_square)
qed

lemma scenario_net_fields [simp]:
  "rxn scenario_net = [[0]]" "sp scenario_net = [0]" "population scenario_net a = 100"
  "rxn scenario_net_leapt = [[0]]" "sp scenario_net_leapt = [0]"
  "population scenario_net_leapt a = 105"
  by (simp_all add: scenario_net_def scenario_net_leapt_def)

lemma scenario_rb_first_call:
  "rb_precheck scenario_env scenario_net 1 (scenario_rb_at x n)
     = Some (1/2, scenario_rb_at (105 + sqrt 5) (Suc (Suc n)))"
proof -
  have t1: "rb_trial scenario_env scenario_net 1 (scenario_rb_at x n)
              = (False, scenario_rb_at (110 + sqrt 10) (Suc n))"
    by (subst scenario_rb_trial[where b = 100 and x = x])
       (simp_all add: scenario_sqrt_facts, simp add: scenario_rb_at_def scenario_rb_def)
  have t2: "rb_trial scenario_env scenario_net (1/2) (scenario_rb_at (110 + sqrt 10) (Suc n))
              = (True, scenario_rb_at (105 + sqrt 5) (Suc (Suc n)))"
    by (subst scenario_rb_trial[where b = 100 and x = "110 + sqrt 10"])
       (simp_all add: sqrt5_le, simp add: scenario_rb_at_def scenario_rb_def)
  show ?thesis
    by (simp add: rb_precheck_reject[OF t1] rb_precheck_accept[OF t2])
qed

lemma scenario_sb_first_call:
  "sb_precheck scenario_env scenario_net 1 (scenario_sb_at x n)
     = Some (1/2, scenario_sb_at (105 + sqrt 5) (Suc (Suc n)))"
proof -
  have t1: "sb_trial scenario_env scenario_net 1 (scenario_sb_at x n)
              = (False, scenario_sb_at (110 + sqrt 10) (Suc n))"
    by (subst scenario_sb_trial[where b = 100 and x = x])
       (simp_all add: scenario_sqrt_facts, simp add: scenario_sb_at_def scenario_sb_def)
  have t2: "sb_trial scenario_env scenario_net (1/2) (scenario_sb_at (110 + sqrt 10) (Suc n))
              = (True, scenario_sb_at (105 + sqrt 5) (Suc (Suc n)))"
    by (subst scenario_sb_trial[where b = 100 and x = "110 + sqrt 10"])
       (simp_all add: sqrt5_le, simp add: scenario_sb_at_def scenario_sb_def)
  show ?thesis
    by (simp add: sb_precheck_reject[OF t1] sb_precheck_accept[OF t2])
qed

lemma scenario_rb_after_barely:
  "rb_precheck scenario_env scenario_net_leapt (9/20) ((scenario_rb_at x n)\<lparr>rb_oldPop := [[105]]\<rparr>)
     = Some (9/20, (scenario_rb_at (219/2 + sqrt (9/2)) (Suc n))\<lparr>rb_oldPop := [[105]]\<rparr>)"
proof -
  have t: "rb_trial scenario_env scenario_net_leapt (9/20) ((scenario_rb_at x n)\<lparr>rb_oldPop := [[105]]\<rparr>)
             = (True, (scenario_rb_at (219/2 + sqrt (9/2)) (Suc n))\<lparr>rb_oldPop := [[105]]\<rparr>)"
    using scenario_sqrt_facts(2)
    by (subst scenario_rb_trial[where b = 105 and x = x])
       (simp_all, simp add: scenario_rb_at_def scenario_rb_def)
  show ?thesis by (rule rb_precheck_accept[OF t])
qed

lemma scenario_sb_after_barely:
  "sb_precheck scenario_env scenario_net_leapt (9/20) ((scenario_sb_at x n)\<lparr>sb_oldPop := [105]\<rparr>)
     = Some (9/20, (scenario_sb_at (219/2 + sqrt (9/2)) (Suc n))\<lparr>sb_oldPop := [105]\<rparr>)"
proof -
  have t: "sb_trial scenario_env scenario_net_leapt (9/20) ((scenario_sb_at x n)\<lparr>sb_oldPop := [105]\<rparr>)
             = (True, (scenario_sb_at (219/2 + sqrt (9/2)) (Suc n))\<lparr>sb_oldPop := [105]\<rparr>)"
    using scenario_sqrt_facts(2)
    by (subst scenario_sb_trial[where b = 105 and x = x])
       (simp_all, simp add: scenario_sb_at_def scenario_sb_def)
  show ?thesis by (rule sb_precheck_accept[OF t])
qed

lemma scenario_rb_after_substantial:
  "rb_precheck scenario_env scenario_net (3/4) ((scenario_rb_at x n)\<lparr>rb_substantially := True\<rparr>)
     = Some (3/8, (scenario_rb_at (415/4 + sqrt (15/4)) (Suc (Suc n)))\<lparr>rb_substantially := True\<rparr>)"
proof -
  have t1: "rb_trial scenario_env scenario_net (3/4) ((scenario_rb_at x n)\<lparr>rb_substantially := True\<rparr>)
              = (False, (scenario_rb_at (215/2 + sqrt (15/2)) (Suc n))\<lparr>rb_substantially := True\<rparr>)"
    using scenario_sqrt_facts(3)
    by (subst scenario_rb_trial[where b = 100 and x = x])
       (simp_all, simp add: scenario_rb_at_def scenario_rb_def)
  have t2: "rb_trial scenario_env scenario_net (3/8)
              ((scenario_rb_at (215/2 + sqrt (15/2)) (Suc n))\<lparr>rb_substantially := True\<rparr>)
              = (True, (scenario_rb_at (415/4 + sqrt (15/4)) (Suc (Suc n)))\<lparr>rb_substantially := True\<rparr>)"
    using scenario_sqrt_facts(4)
    by (subst scenario_rb_trial[where b = 100 and x = "215/2 + sqrt (15/2)"])
       (simp_all, simp add: scenario_rb_at_def scenario_rb_def)
  show ?thesis
    by (simp add: rb_precheck_reject[OF t1] rb_precheck_accept[OF t2])
qed

lemma scenario_sb_after_substantial:
  "sb_precheck scenario_env scenario_net (3/4) ((scenario_sb_at x n)\<lparr>sb_substantially := True\<rparr>)
     = Some (3/8, (scenario_sb_at (415/4 + sqrt (15/4)) (Suc (Suc n)))\<lparr>sb_substantially := True\<rparr>)"
proof -
  have t1: "sb_trial scenario_env scenario_net (3/4) ((scenario_sb_at x n)\<lparr>sb_substantially := True\<rparr>)
              = (False, (scenario_sb_at (215/2 + sqrt (15/2)) (Suc n))\<lparr>sb_substantially := True\<rparr>)"
    using scenario_sqrt_facts(3)
    by (subst scenario_sb_trial[where b = 100 and x = x])
       (simp_all, simp add: scenario_sb_at_def scenario_sb_def)
  have t2: "sb_trial scenario_env scenario_net (3/8)
              ((scenario_sb_at (215/2 + sqrt (15/2)) (Suc n))\<lparr>sb_substantially := True\<rparr>)
              = (True, (scenario_sb_at (415/4 + sqrt (15/4)) (Suc (Suc n)))\<lparr>sb_substantially := True\<rparr>)"
    using scenario_sqrt_facts(4)
    by (subst scenario_sb_trial[where b = 100 and x = "215/2 + sqrt (15/2)"])
       (simp_all, simp add: scenario_sb_at_def scenario_sb_def)
  show ?thesis
    by (simp add: sb_precheck_reject[OF t1] sb_precheck_accept[OF t2])
qed


lemma scenario_rb_getNewTau_barely:
  "rb_catch_up scenario_net_leapt ((scenario_rb_at x n)\<lparr>rb_oldPop := [[105]]\<rparr>)
     = Inr ((scenario_rb_at x n)\<lparr>rb_oldPop := [[105]]\<rparr>)"
  "rb_getNewTau scenario_env scenario_net_leapt (1/2) ((scenario_rb_at x n)\<lparr>rb_oldPop := [[105]]\<rparr>)
     = Some (Inr (9/20, (scenario_rb_at (219/2 + sqrt (9/2)) (Suc n))\<lparr>rb_oldPop := [[105]]\<rparr>))"
proof -
  let ?S = "(scenario_rb_at x n)\<lparr>rb_oldPop := [[105]]\<rparr>"
  show c: "rb_catch_up scenario_net_leapt ?S = Inr ?S"
    by (rule rb_catch_up_synced) simp
  have e: "?S\<lparr>rb_preCalc := False\<rparr> = ?S" by (simp add: scenario_rb_at_def)
  show "rb_getNewTau scenario_env scenario_net_leapt (1/2) ?S
     = Some (Inr (9/20, (scenario_rb_at (219/2 + sqrt (9/2)) (Suc n))\<lparr>rb_oldPop := [[105]]\<rparr>))"
    unfolding rb_getNewTau_start[OF c] e
    by (simp add: rb_start_tau_def scenario_rb_after_barely)
qed

lemma scenario_rb_getNewTau_substantial:
  "rb_catch_up scenario_net ((scenario_rb_at x n)\<lparr>rb_substantially := True\<rparr>)
     = Inr ((scenario_rb_at x n)\<lparr>rb_substantially := True\<rparr>)"
  "rb_getNewTau scenario_env scenario_net (1/2) ((scenario_rb_at x n)\<lparr>rb_substantially := True\<rparr>)
     = Some (Inr (3/8, (scenario_rb_at (415/4 + sqrt (15/4)) (Suc (Suc n)))
                          \<lparr>rb_substantially := True\<rparr>))"
proof -
  let ?S = "(scenario_rb_at x n)\<lparr>rb_substantially := True\<rparr>"
  show c: "rb_catch_up scenario_net ?S = Inr ?S"
    by (rule rb_catch_up_synced) simp
  have e: "?S\<lparr>rb_preCalc := False\<rparr> = ?S" by (simp add: scenario_rb_at_def)
  show "rb_getNewTau scenario_env scenario_net (1/2) ?S
     = Some (Inr (3/8, (scenario_rb_at (415/4 + sqrt (15/4)) (Suc (Suc n)))
                          \<lparr>rb_substantially := True\<rparr>))"
    unfolding rb_getNewTau_start[OF c] e
    by (simp add: rb_start_tau_def scenario_rb_after_substantial)
qed

lemma scenario_sb_getNewTau_barely:
  "sb_catch_up scenario_env scenario_net_leapt ((scenario_sb_at x n)\<lparr>sb_oldPop := [105]\<rparr>)
     = Inr ((scenario_sb_at x n)\<lparr>sb_oldPop := [105]\<rparr>)"
  "sb_getNewTau scenario_env scenario_net_leapt (1/2) ((scenario_sb_at x n)\<lparr>sb_oldPop := [105]\<rparr>)
     = Some (Inr (9/20, (scenario_sb_at (219/2 + sqrt (9/2)) (Suc n))\<lparr>sb_oldPop := [105]\<rparr>))"
proof -
  let ?S = "(scenario_sb_at x n)\<lparr>sb_oldPop := [105]\<rparr>"
  show c: "sb_catch_up scenario_env scenario_net_leapt ?S = Inr ?S"
    by (rule sb_catch_up_synced) simp
  have e: "?S\<lparr>sb_preCalc := False\<rparr> = ?S" by (simp add: scenario_sb_at_def)
  show "sb_getNewTau scenario_env scenario_net_leapt (1/2) ?S
     = Some (Inr (9/20, (scenario_sb_at (219/2 + sqrt (9/2)) (Suc n))\<lparr>sb_oldPop := [105]\<rparr>))"
    unfolding sb_getNewTau_start[OF c] e
    by (simp add: sb_start_tau_def scenario_sb_after_barely)
qed

lemma scenario_sb_getNewTau_substantial:
  "sb_catch_up scenario_env scenario_net ((scenario_sb_at x n)\<lparr>sb_substantially := True\<rparr>)
     = Inr ((scenario_sb_at x n)\<lparr>sb_substantially := True\<rparr>)"
  "sb_getNewTau scenario_env scenario_net (1/2) ((scenario_sb_at x n)\<lparr>sb_substantially := True\<rparr>)
     = Some (Inr (3/8, (scenario_sb_at (415/4 + sqrt (15/4)) (Suc (Suc n)))
                          \<lparr>sb_substantially := True\<rparr>))"
proof -
  let ?S = "(scenario_sb_at x n)\<lparr>sb_substantially := True\<rparr>"
  show c: "sb_catch_up scenario_env scenario_net ?S = Inr ?S"
    by (rule sb_catch_up_synced) simp
  have e: "?S\<lparr>sb_preCalc := False\<rparr> = ?S" by (simp add: scenario_sb_at_def)
  show "sb_getNewTau scenario_env scenario_net (1/2) ?S
     = Some (Inr (3/8, (scenario_sb_at (415/4 + sqrt (15/4)) (Suc (Suc n)))
                          \<lparr>sb_substantially := True\<rparr>))"
    unfolding sb_getNewTau_start[OF c] e
    by (simp add: sb_start_tau_def scenario_sb_after_substantial)
qed

lemma scenario_synced:
  "rb_catch_up scenario_net scenario_rb = Inr scenario_rb"
  "sb_catch_up scenario_env scenario_net scenario_sb = Inr scenario_sb"
  by (rule rb_catch_up_synced, simp add: scenario_rb_def,
      rule sb_catch_up_synced, simp add: scenario_sb_def)

subsection \<open>Copies\<close>

lemma rb_copy_getNewTau:
  assumes "rb_copy ac0 s0 net orig = Inr cp"
  shows "rb_preCalc cp"
    and "rb_getNewTau E net' tau cp
           = (case rb_catch_up net' cp of
                Inl e \<Rightarrow> Some (Inl e)
              | Inr st1 \<Rightarrow>
                  map_option Inr
                    (rb_precheck E net' (ptc_getNewTau E net' tau) (st1\<lparr>rb_preCalc := False\<rparr>)))"
proof -
  from rb_copy_Inr[of ac0 s0 net orig] assms show p: "rb_preCalc cp" by auto
  show "rb_getNewTau E net' tau cp
           = (case rb_catch_up net' cp of
                Inl e \<Rightarrow> Some (Inl e)
              | Inr st1 \<Rightarrow>
                  map_option Inr
                    (rb_precheck E net' (ptc_getNewTau E net' tau) (st1\<lparr>rb_preCalc := False\<rparr>)))"
  proof (cases "rb_catch_up net' cp")
    case (Inl e)
    then show ?thesis by (simp add: rb_getNewTau_def)
  next
    case (Inr st1)
    from rb_getNewTau_start[OF Inr, of E tau] p Inr show ?thesis
      by (simp add: rb_start_tau_def)
  qed
qed

lemma sb_copy_getNewTau:
  assumes "sb_copy E0 ac0 s0 net orig = Inr cp"
  shows "sb_preCalc cp"
    and "sb_getNewTau E net' tau cp
           = (case sb_catch_up E net' cp of
                Inl e \<Rightarrow> Some (Inl e)
              | Inr st1 \<Rightarrow>
                  map_option Inr
                    (sb_precheck E net' (ptc_getNewTau E net' tau) (st1\<lparr>sb_preCalc := False\<rparr>)))"
proof -
  from sb_copy_Inr[of E0 ac0 s0 net orig] assms show p: "sb_preCalc cp" by auto
  show "sb_getNewTau E net' tau cp
           = (case sb_catch_up E net' cp of
                Inl e \<Rightarrow> Some (Inl e)
              | Inr st1 \<Rightarrow>
                  map_option Inr
                    (sb_precheck E net' (ptc_getNewTau E net' tau) (st1\<lparr>sb_preCalc := False\<rparr>)))"
  proof (cases "sb_catch_up E net' cp")
    case (Inl e)
    then show ?thesis by (simp add: sb_getNewTau_def)
  next
    case (Inr st1)
    from sb_getNewTau_start[OF Inr, of tau] p Inr show ?thesis
      by (simp add: sb_start_tau_def)
  qed
qed

subsection \<open>Moments of the projected change\<close>

lemma moments_sums:
  "mean_dX ac tau j
     = tau * (\<Sum>v<length (spInRxn ac ! j). stoich ac ! j ! v * a_eff ac ! (spInRxn ac ! j ! v))"
  "sdev_dX ac tau j
     = (if mean_dX ac tau j < 0 then - 1 else 1)
       * sqrt (tau * (\<Sum>v<length (spInRxn ac ! j).
                        (stoich ac ! j ! v)\<^sup>2 * a_eff ac ! (spInRxn ac ! j ! v)))"
proof -
  show "mean_dX ac tau j
     = tau * (\<Sum>v<length (spInRxn ac ! j). stoich ac ! j ! v * a_eff ac ! (spInRxn ac ! j ! v))"
    by (simp add: mean_dX_def accum_dX_sum)
  have "snd (accum_dX ac j) * tau
          = tau * (\<Sum>v<length (spInRxn ac ! j).
                     (stoich ac ! j ! v)\<^sup>2 * a_eff ac ! (spInRxn ac ! j ! v))"
    by (simp add: accum_dX_sum power2_eq_square)
  then show "sdev_dX ac tau j
     = (if mean_dX ac tau j < 0 then - 1 else 1)
       * sqrt (tau * (\<Sum>v<length (spInRxn ac ! j).
                        (stoich ac ! j ! v)\<^sup>2 * a_eff ac ! (spInRxn ac ! j ! v)))"
    by (simp add: sdev_dX_def Let_def)
qed

lemma sdev_dX_sign:
  assumes tau: "0 \<le> tau"
    and a: "\<forall>v<length (spInRxn ac ! j). 0 \<le> a_eff ac ! (spInRxn ac ! j ! v)"
  shows "(mean_dX ac tau j < 0 \<longrightarrow> sdev_dX ac tau j < 0)
       \<and> (0 \<le> mean_dX ac tau j \<longrightarrow> 0 \<le> sdev_dX ac tau j)"
proof -
  let ?n = "length (spInRxn ac ! j)"
  let ?z = "\<lambda>v. stoich ac ! j ! v"
  let ?a = "\<lambda>v. a_eff ac ! (spInRxn ac ! j ! v)"
  let ?V = "\<Sum>v<?n. (?z v)\<^sup>2 * ?a v"
  have nn: "0 \<le> (?z v)\<^sup>2 * ?a v" if "v < ?n" for v
    using a that by simp
  have V0: "0 \<le> ?V" by (rule sum_nonneg) (simp add: nn)
  have neg: "0 < tau * ?V" if m: "mean_dX ac tau j < 0"
  proof -
    from m have s: "tau * (\<Sum>v<?n. ?z v * ?a v) < 0" by (simp add: moments_sums)
    with tau have t: "0 < tau" by (cases "tau = 0") simp_all
    with s have "(\<Sum>v<?n. ?z v * ?a v) < 0" by (simp add: mult_less_0_iff)
    have "\<exists>v<?n. ?z v * ?a v < 0"
    proof (rule ccontr)
      assume H: "\<not> (\<exists>v<?n. ?z v * ?a v < 0)"
      have "0 \<le> ?z v * ?a v" if "v \<in> {..<?n}" for v
      proof -
        from that have "v < ?n" by simp
        with H have "\<not> ?z v * ?a v < 0" by blast
        then show ?thesis by simp
      qed
      then have "0 \<le> (\<Sum>v<?n. ?z v * ?a v)" by (rule sum_nonneg)
      with \<open>(\<Sum>v<?n. ?z v * ?a v) < 0\<close> show False by simp
    qed
    then obtain v where v: "v < ?n" "?z v * ?a v < 0" by blast
    from v a have "0 < ?a v" "?z v \<noteq> 0" by (auto simp: mult_less_0_iff less_le)
    then have "0 < (?z v)\<^sup>2 * ?a v" by simp
    moreover have "(?z v)\<^sup>2 * ?a v \<le> ?V"
      using nn v(1) by (intro member_le_sum) auto
    ultimately have "0 < ?V" by linarith
    with t show ?thesis by simp
  qed
  show ?thesis
  proof (intro conjI impI)
    assume m: "mean_dX ac tau j < 0"
    from neg[OF m] have "0 < sqrt (tau * ?V)" by simp
    with m show "sdev_dX ac tau j < 0" by (simp add: moments_sums(2))
  next
    assume m: "0 \<le> mean_dX ac tau j"
    from tau V0 have "0 \<le> sqrt (tau * ?V)" by simp
    with m show "0 \<le> sdev_dX ac tau j" by (simp add: moments_sums(2))
  qed
qed

lemma moment_arrays_nth:
  "j < length (X_eff ac) \<Longrightarrow> mean_dX_array ac tau ! j = mean_dX ac tau j"
  "j < length (X_eff ac) \<Longrightarrow> sdev_dX_array ac tau ! j = sdev_dX ac tau j"
  by (simp_all add: mean_dX_array_def sdev_dX_array_def)

lemma rb_trial_projPop:
  assumes "rb_trial E net tau st = (ok, st')"
    and "v < length (rb_projPop st)" "j < length (rb_projPop st ! v)" "j < length (rxn net ! v)"
    and "rateSp (rb_aCalc st') ! v ! j < length (X_eff (rb_aCalc st'))"
  shows "rb_aCalc st' = calc_aEff E net tau (rb_aCalc st)"
    and "rb_projPop st' ! v ! j
           = rb_oldPop st ! v ! j + mean_dX (rb_aCalc st') tau (rateSp (rb_aCalc st') ! v ! j)
             + sdev_dX (rb_aCalc st') tau (rateSp (rb_aCalc st') ! v ! j)"
proof -
  let ?ac = "calc_aEff E net tau (rb_aCalc st)"
  from assms(1) show a: "rb_aCalc st' = ?ac"
    by (auto simp: rb_trial_def Let_def split: prod.splits)
  from assms(1) have p: "rb_projPop st'
      = rb_project net ?ac (mean_dX_array ?ac tau) (sdev_dX_array ?ac tau) (rb_oldPop st) (rb_projPop st)"
    by (auto simp: rb_trial_def Let_def split: prod.splits)
  from assms(5) have s: "rateSp ?ac ! v ! j < length (X_eff ?ac)" by (simp add: a)
  show "rb_projPop st' ! v ! j
           = rb_oldPop st ! v ! j + mean_dX (rb_aCalc st') tau (rateSp (rb_aCalc st') ! v ! j)
             + sdev_dX (rb_aCalc st') tau (rateSp (rb_aCalc st') ! v ! j)"
    unfolding p a
    by (simp add: rb_project_nth[OF assms(2)] rb_project_row_nth[OF assms(3,4)]
        moment_arrays_nth[OF s])
qed

lemma sb_trial_projPop:
  assumes "sb_trial E net tau t = (ok, t')"
    and "j < length (sb_projPop t)" "j < length (X_eff (sb_aCalc t'))"
  shows "sb_aCalc t' = calc_aEff E net tau (sb_aCalc t)"
    and "sb_projPop t' ! j
           = sb_oldPop t ! j + mean_dX (sb_aCalc t') tau j + sdev_dX (sb_aCalc t') tau j"
proof -
  let ?ac = "calc_aEff E net tau (sb_aCalc t)"
  from assms(1) show a: "sb_aCalc t' = ?ac"
    by (auto simp: sb_trial_def Let_def split: prod.splits)
  from assms(1) have p: "sb_projPop t'
      = sb_project (mean_dX_array ?ac tau) (sdev_dX_array ?ac tau) (sb_oldPop t) (sb_projPop t)"
    by (auto simp: sb_trial_def Let_def split: prod.splits)
  from assms(3) have s: "j < length (X_eff ?ac)" by (simp add: a)
  show "sb_projPop t' ! j
           = sb_oldPop t ! j + mean_dX (sb_aCalc t') tau j + sdev_dX (sb_aCalc t') tau j"
    unfolding p a
    by (simp add: sb_project_nth[OF assms(2)] moment_arrays_nth[OF s])
qed

lemma sdev_dX_if:
  "sdev_dX ac tau j
     = (if tau * (\<Sum>v<length (spInRxn ac ! j). stoich ac ! j ! v * a_eff ac ! (spInRxn ac ! j ! v)) < 0
        then - sqrt (tau * (\<Sum>v<length (spInRxn ac ! j).
                        (stoich ac ! j ! v)\<^sup>2 * a_eff ac ! (spInRxn ac ! j ! v)))
        else sqrt (tau * (\<Sum>v<length (spInRxn ac ! j).
                        (stoich ac ! j ! v)\<^sup>2 * a_eff ac ! (spInRxn ac ! j ! v))))"
  by (subst moments_sums(2), subst moments_sums(1)) simp

lemma sqrt5_bounds: "223/100 < sqrt 5" "sqrt 5 < 224/100"
  by (rule real_less_rsqrt, simp add: power2_eq_square,
      rule real_less_lsqrt, simp_all add: power2_eq_square)

lemma sqrt10_lt: "sqrt 10 < 4"
  by (rule real_less_lsqrt) simp_all

subsection \<open>Parameters that the constructors accept\<close>

lemma rb_new_accepts:
  assumes "p0 \<le> pp0" "1 \<le> q0" "0 < w0" "w0 < 1"
    and "RBChecker_new E net eps = Inr c" "BinomialCorrector_RK_new E net p0 = Inr b"
  shows "\<exists>old proj. rb_new E ac0 s0 eps p0 pp0 q0 w0 net
           = Inr \<lparr>rb_p = p0, rb_pp = pp0, rb_q = q0, rb_w = w0, rb_preCalc = True,
                  rb_substantially = s0, rb_oldPop = old, rb_projPop = proj,
                  rb_ch = c, rb_bc = b, rb_aCalc = ac0\<rparr>"
  using rb_addRxn_times_frame[of "\<lparr>rb_p = p0, rb_pp = pp0, rb_q = q0, rb_w = w0, rb_preCalc = True,
           rb_substantially = s0, rb_oldPop = [], rb_projPop = [],
           rb_ch = c, rb_bc = b, rb_aCalc = ac0\<rparr>" "length (rxn net)" net] assms
  by (auto simp: rb_new_def)

lemma sb_new_accepts:
  assumes "p0 \<le> pp0" "1 \<le> q0" "0 < w0" "w0 < 1"
    and "SBChecker_new E net eps = Inr c" "BinomialCorrector_RK_new E net p0 = Inr b"
    and "g_Getter_new E net = Inr gg"
  shows "\<exists>old g proj. sb_new E ac0 s0 eps p0 pp0 q0 w0 net
           = Inr \<lparr>sb_p = p0, sb_pp = pp0, sb_q = q0, sb_w = w0, sb_preCalc = True,
                  sb_substantially = s0, sb_oldPop = old, sb_old_g = g, sb_projPop = proj,
                  sb_ch = c, sb_bc = b, sb_gGet = gg, sb_aCalc = ac0\<rparr>"
  using sb_addSpecies_times_frame[of "\<lparr>sb_p = p0, sb_pp = pp0, sb_q = q0, sb_w = w0,
           sb_preCalc = True, sb_substantially = s0, sb_oldPop = [], sb_old_g = [], sb_projPop = [],
           sb_ch = c, sb_bc = b, sb_gGet = gg, sb_aCalc = ac0\<rparr>" "length (sp net)" net E] assms
  by (auto simp: sb_new_def)

subsection \<open>When the pre-check returns\<close>

text \<open>
  The loop \<^verbatim>\<open>while (!ok)\<close> returns as soon as a trial is accepted. With a shrink
  factor \<open>p\<close> strictly between 0 and 1 the trial tau falls below every positive
  bound, so the loop returns whenever the checker accepts every trial whose tau
  is below some positive bound \<open>d\<close>.
\<close>

lemma rb_precheck_returns_within:
  assumes acc: "\<And>t s. 0 < t \<Longrightarrow> t < d \<Longrightarrow> fst (rb_trial E net t s)"
  shows "0 < tau \<Longrightarrow> 0 < rb_p st \<Longrightarrow> tau * rb_p st ^ n < d
           \<Longrightarrow> \<exists>r. rb_precheck E net tau st = Some r"
proof (induction n arbitrary: tau st)
  case 0
  obtain ok st' where t: "rb_trial E net tau st = (ok, st')" by (cases "rb_trial E net tau st")
  from acc[of tau st] 0 t have ok by simp
  with t rb_precheck_accept[of E net tau st st'] show ?case by simp
next
  case (Suc n)
  obtain ok st' where t: "rb_trial E net tau st = (ok, st')" by (cases "rb_trial E net tau st")
  show ?case
  proof (cases ok)
    case True
    with t rb_precheck_accept[of E net tau st st'] show ?thesis by simp
  next
    case False
    from rb_trial_kept[OF t] have p: "rb_p st' = rb_p st" by (simp add: rb_kept_def)
    from Suc.prems have "0 < tau * rb_p st'" "0 < rb_p st'" "tau * rb_p st' * rb_p st' ^ n < d"
      by (simp_all add: p mult.assoc)
    from Suc.IH[OF this] t False rb_precheck_reject[of E net tau st st'] show ?thesis by simp
  qed
qed

lemma rb_precheck_returns:
  assumes "0 < d" "0 < tau" "0 < rb_p st" "rb_p st < 1"
    and acc: "\<And>t s. 0 < t \<Longrightarrow> t < d \<Longrightarrow> fst (rb_trial E net t s)"
  shows "\<exists>r. rb_precheck E net tau st = Some r"
proof -
  from assms(1,2) have "0 < d / tau" by simp
  from real_arch_pow_inv[OF this assms(4)] obtain n where "rb_p st ^ n < d / tau" by blast
  with assms(2) have "tau * rb_p st ^ n < d" by (simp add: pos_less_divide_eq mult.commute)
  from rb_precheck_returns_within[of d E net tau st n, OF acc assms(2,3) this]
  show ?thesis by simp
qed

lemma sb_precheck_returns_within:
  assumes acc: "\<And>t s. 0 < t \<Longrightarrow> t < d \<Longrightarrow> fst (sb_trial E net t s)"
  shows "0 < tau \<Longrightarrow> 0 < sb_p st \<Longrightarrow> tau * sb_p st ^ n < d
           \<Longrightarrow> \<exists>r. sb_precheck E net tau st = Some r"
proof (induction n arbitrary: tau st)
  case 0
  obtain ok st' where t: "sb_trial E net tau st = (ok, st')" by (cases "sb_trial E net tau st")
  from acc[of tau st] 0 t have ok by simp
  with t sb_precheck_accept[of E net tau st st'] show ?case by simp
next
  case (Suc n)
  obtain ok st' where t: "sb_trial E net tau st = (ok, st')" by (cases "sb_trial E net tau st")
  show ?case
  proof (cases ok)
    case True
    with t sb_precheck_accept[of E net tau st st'] show ?thesis by simp
  next
    case False
    from sb_trial_kept[OF t] have p: "sb_p st' = sb_p st" by (simp add: sb_kept_def)
    from Suc.prems have "0 < tau * sb_p st'" "0 < sb_p st'" "tau * sb_p st' * sb_p st' ^ n < d"
      by (simp_all add: p mult.assoc)
    from Suc.IH[OF this] t False sb_precheck_reject[of E net tau st st'] show ?thesis by simp
  qed
qed

lemma sb_precheck_returns:
  assumes "0 < d" "0 < tau" "0 < sb_p st" "sb_p st < 1"
    and acc: "\<And>t s. 0 < t \<Longrightarrow> t < d \<Longrightarrow> fst (sb_trial E net t s)"
  shows "\<exists>r. sb_precheck E net tau st = Some r"
proof -
  from assms(1,2) have "0 < d / tau" by simp
  from real_arch_pow_inv[OF this assms(4)] obtain n where "sb_p st ^ n < d / tau" by blast
  with assms(2) have "tau * sb_p st ^ n < d" by (simp add: pos_less_divide_eq mult.commute)
  from sb_precheck_returns_within[of d E net tau st n, OF acc assms(2,3) this]
  show ?thesis by simp
qed

subsection \<open>Rows of the baseline after update\<close>

lemma rb_update_rows:
  assumes "rb_update net st = Inr st'" and "v < length (rxn net)"
  shows "length (rb_oldPop st' ! v) = length (rb_oldPop st ! v)"
    and "length (rxn net ! v) \<le> length (rb_oldPop st' ! v)"
    and "j < length (rxn net ! v) \<Longrightarrow> rb_oldPop st' ! v ! j = population net (rxn net ! v ! j)"
    and "length (rxn net ! v) \<le> j \<Longrightarrow> j < length (rb_oldPop st ! v)
           \<Longrightarrow> rb_oldPop st' ! v ! j = rb_oldPop st ! v ! j"
proof -
  note u = rb_update_Inr[OF assms(1)]
  from u have o: "rb_oldPop st' = rb_update_oldPop net (rb_oldPop st)" by simp
  from u assms(2) have v: "v < length (rb_oldPop st)" by simp
  note r = rb_update_in_range_nth[OF rb_update_Inr_in_range[OF assms(1)] v]
  show l: "length (rb_oldPop st' ! v) = length (rb_oldPop st ! v)"
    unfolding o by (simp add: rb_update_oldPop_row[OF v])
  from r l show "length (rxn net ! v) \<le> length (rb_oldPop st' ! v)" by simp
  show "rb_oldPop st' ! v ! j = population net (rxn net ! v ! j)" if "j < length (rxn net ! v)"
    unfolding o using that r by (simp add: rb_update_oldPop_row[OF v] rb_update_row_nth)
  show "rb_oldPop st' ! v ! j = rb_oldPop st ! v ! j"
    if "length (rxn net ! v) \<le> j" "j < length (rb_oldPop st ! v)"
    unfolding o using that by (simp add: rb_update_oldPop_row[OF v] rb_update_row_nth_beyond)
qed

lemma rb_update_exact:
  assumes "rb_update net st = Inr st'"
    and "list_all2 (\<lambda>row rs. length row = length rs) (rb_oldPop st) (rxn net)"
  shows "rb_oldPop st' = map (map (population net)) (rxn net)"
proof (rule nth_equalityI)
  note v = rb_update_values[OF assms(1)]
  show "length (rb_oldPop st') = length (map (map (population net)) (rxn net))"
    using v(2) by simp
  fix i assume "i < length (rb_oldPop st')"
  with v(2) have i: "i < length (rxn net)" by simp
  from assms(2) i have e: "length (rb_oldPop st ! i) = length (rxn net ! i)"
    by (simp add: list_all2_conv_all_nth)
  note r = rb_update_rows[OF assms(1) i]
  have "rb_oldPop st' ! i = map (population net) (rxn net ! i)"
    by (rule nth_equalityI) (simp_all add: r(1) e r(3))
  with i show "rb_oldPop st' ! i = map (map (population net)) (rxn net) ! i" by simp
qed

lemma pair_rb_update:
  "rb_update pair_net pair_rb = Inr (pair_rb\<lparr>rb_oldPop := [[7, 9], [9]]\<rparr>)"
  by (simp add: rb_update_def rb_update_in_range_def rb_update_oldPop_def rb_update_row_def
      pair_net_def pair_rb_def upt_rec numeral_2_eq_2)

lemma pair_sb_update:
  "sb_update scenario_env pair_net pair_sb
     = Inr (pair_sb\<lparr>sb_oldPop := [7, 9], sb_old_g := [1, 1]\<rparr>)"
  by (simp add: sb_update_def sb_update_in_range_def sb_update_arrays_def pair_net_def pair_sb_def
      scenario_env_def upt_rec numeral_2_eq_2)

section \<open>The claims\<close>

text \<open>
  C8. The registry catch-up loop is idempotent. When the registry is synchronised
  with the network (\<^verbatim>\<open>oldPop.size()\<close> equals \<^verbatim>\<open>rxn.size()\<close>, respectively
  \<^verbatim>\<open>sp.size()\<close>), the catch-up that opens \<^verbatim>\<open>getNewTau\<close> and \<^verbatim>\<open>check\<close> returns the
  state it was given: nothing is appended and no baseline value changes. Running
  it on its own result, with the network unchanged, returns that result again.
\<close>

theorem catch_up_idempotent:
  "(length (rb_oldPop st) = length (rxn net) \<longrightarrow> rb_catch_up net st = Inr st) \<and>
   (rb_catch_up net st0 = Inr st' \<longrightarrow> rb_catch_up net st' = Inr st') \<and>
   (length (sb_oldPop t) = length (sp net) \<longrightarrow> sb_catch_up E net t = Inr t) \<and>
   (sb_catch_up E net t0 = Inr t' \<longrightarrow> sb_catch_up E net t' = Inr t')"
proof (intro conjI impI)
  assume "length (rb_oldPop st) = length (rxn net)"
  then show "rb_catch_up net st = Inr st" by (simp add: rb_catch_up_synced)
next
  assume "rb_catch_up net st0 = Inr st'"
  from rb_catch_up_Inr[OF this] show "rb_catch_up net st' = Inr st'"
    by (rule rb_catch_up_synced)
next
  assume "length (sb_oldPop t) = length (sp net)"
  then show "sb_catch_up E net t = Inr t" by (simp add: sb_catch_up_synced)
next
  assume "sb_catch_up E net t0 = Inr t'"
  from sb_catch_up_Inr[OF this] show "sb_catch_up E net t' = Inr t'"
    by (rule sb_catch_up_synced)
qed

lemma scenario_rb_catch_up:
  "rb_catch_up scenario_net (scenario_rb\<lparr>rb_oldPop := [], rb_projPop := []\<rparr>) = Inr scenario_rb"
proof -
  have a: "rb_addRxn scenario_net (scenario_rb\<lparr>rb_oldPop := [], rb_projPop := []\<rparr>) = Inr scenario_rb"
    by (simp add: rb_addRxn_def scenario_net_def scenario_rb_def)
  have b: "rb_catch_up scenario_net scenario_rb = Inr scenario_rb"
    by (rule rb_catch_up_synced) (simp add: scenario_net_def scenario_rb_def)
  show ?thesis
    by (subst rb_catch_up.simps) (simp add: a b)
qed

lemma scenario_sb_catch_up:
  "sb_catch_up scenario_env scenario_net
     (scenario_sb\<lparr>sb_oldPop := [], sb_old_g := [], sb_projPop := []\<rparr>) = Inr scenario_sb"
proof -
  have a: "sb_addSpecies scenario_env scenario_net
             (scenario_sb\<lparr>sb_oldPop := [], sb_old_g := [], sb_projPop := []\<rparr>) = Inr scenario_sb"
    by (simp add: sb_addSpecies_def scenario_net_def scenario_sb_def scenario_env_def)
  have b: "sb_catch_up scenario_env scenario_net scenario_sb = Inr scenario_sb"
    by (rule sb_catch_up_synced) (simp add: scenario_net_def scenario_sb_def)
  show ?thesis
    by (subst sb_catch_up.simps) (simp add: a b)
qed

theorem catch_up_idempotent_witness:
  "length (rb_oldPop scenario_rb) = length (rxn scenario_net) \<and>
   rb_catch_up scenario_net (scenario_rb\<lparr>rb_oldPop := [], rb_projPop := []\<rparr>) = Inr scenario_rb \<and>
   rb_catch_up scenario_net scenario_rb = Inr scenario_rb \<and>
   length (sb_oldPop scenario_sb) = length (sp scenario_net) \<and>
   sb_catch_up scenario_env scenario_net
     (scenario_sb\<lparr>sb_oldPop := [], sb_old_g := [], sb_projPop := []\<rparr>) = Inr scenario_sb \<and>
   sb_catch_up scenario_env scenario_net scenario_sb = Inr scenario_sb"
proof -
  have a: "length (rb_oldPop scenario_rb) = length (rxn scenario_net)"
    by (simp add: scenario_rb_def scenario_net_def)
  have b: "length (sb_oldPop scenario_sb) = length (sp scenario_net)"
    by (simp add: scenario_sb_def scenario_net_def)
  from catch_up_idempotent
         [of scenario_rb scenario_net "scenario_rb\<lparr>rb_oldPop := [], rb_projPop := []\<rparr>" scenario_rb
             scenario_sb scenario_env
             "scenario_sb\<lparr>sb_oldPop := [], sb_old_g := [], sb_projPop := []\<rparr>" scenario_sb]
       a b scenario_rb_catch_up scenario_sb_catch_up
  show ?thesis by simp
qed

text \<open>
  C4. The post-leap classification \<^verbatim>\<open>check()\<close>, once the registry has caught up,
  evaluates the bound check at threshold scale \<open>w\<close> on the baseline \<^verbatim>\<open>oldPop\<close>
  with \<^verbatim>\<open>isPostCheck = true\<close>; its result \<open>s\<close> is stored in \<^verbatim>\<open>substantially\<close>. If
  \<open>s\<close> holds the call returns true and the checker is left as that single
  evaluation left it, so the loose bound is not evaluated. Otherwise the same
  check is evaluated at scale 1 and its result \<open>l\<close> is returned: true for a
  barely accepted step, false for a rejected one.
\<close>

theorem check_classification:
  "(rb_catch_up net st = Inr st1 \<longrightarrow>
      RBChecker_check E net (rb_w st1) (a_eff (rb_aCalc st1)) (rb_oldPop st1) True (rb_ch st1)
        = (s, c1) \<longrightarrow>
      RBChecker_check E net 1 (a_eff (rb_aCalc st1)) (rb_oldPop st1) True c1 = (l, c2) \<longrightarrow>
        rb_check E net st
          = Inr (s \<or> l, st1\<lparr>rb_substantially := s, rb_ch := if s then c1 else c2\<rparr>)) \<and>
   (sb_catch_up E net t = Inr t1 \<longrightarrow>
      SBChecker_check E net (sb_w t1) (X_eff (sb_aCalc t1)) (sb_oldPop t1) (sb_old_g t1) True
        (sb_ch t1) = (s', d1) \<longrightarrow>
      SBChecker_check E net 1 (X_eff (sb_aCalc t1)) (sb_oldPop t1) (sb_old_g t1) True d1
        = (l', d2) \<longrightarrow>
        sb_check E net t
          = Inr (s' \<or> l', t1\<lparr>sb_substantially := s', sb_ch := if s' then d1 else d2\<rparr>))"
  using rb_check_result[of net st st1 E s c1 l c2] sb_check_result[of E net t t1 s' d1 l' d2]
  by (intro conjI impI)

theorem check_classification_witness:
  "rb_catch_up scenario_net_leapt (scenario_rb_at (105 + sqrt 5) 2)
     = Inr (scenario_rb_at (105 + sqrt 5) 2) \<and>
   RBChecker_check scenario_env scenario_net_leapt (1/100) [10] [[100]] True (1/10, 2)
     = (False, (1/10, 3)) \<and>
   RBChecker_check scenario_env scenario_net_leapt 1 [10] [[100]] True (1/10, 3)
     = (True, (1/10, 4)) \<and>
   rb_check scenario_env scenario_net_leapt (scenario_rb_at (105 + sqrt 5) 2)
     = Inr (True, (scenario_rb_at (105 + sqrt 5) 2)
                    \<lparr>rb_substantially := False, rb_ch := (1/10, 4)\<rparr>) \<and>
   RBChecker_check scenario_env scenario_net (1/100) [10] [[100]] True (1/10, 2)
     = (True, (1/10, 3)) \<and>
   rb_check scenario_env scenario_net (scenario_rb_at (105 + sqrt 5) 2)
     = Inr (True, (scenario_rb_at (105 + sqrt 5) 2)
                    \<lparr>rb_substantially := True, rb_ch := (1/10, 3)\<rparr>) \<and>
   sb_catch_up scenario_env scenario_net_leapt (scenario_sb_at (105 + sqrt 5) 2)
     = Inr (scenario_sb_at (105 + sqrt 5) 2) \<and>
   SBChecker_check scenario_env scenario_net_leapt (1/100) [100] [100] [1] True (1/10, 2)
     = (False, (1/10, 3)) \<and>
   SBChecker_check scenario_env scenario_net_leapt 1 [100] [100] [1] True (1/10, 3)
     = (True, (1/10, 4)) \<and>
   sb_check scenario_env scenario_net_leapt (scenario_sb_at (105 + sqrt 5) 2)
     = Inr (True, (scenario_sb_at (105 + sqrt 5) 2)
                    \<lparr>sb_substantially := False, sb_ch := (1/10, 4)\<rparr>) \<and>
   SBChecker_check scenario_env scenario_net (1/100) [100] [100] [1] True (1/10, 2)
     = (True, (1/10, 3)) \<and>
   sb_check scenario_env scenario_net (scenario_sb_at (105 + sqrt 5) 2)
     = Inr (True, (scenario_sb_at (105 + sqrt 5) 2)
                    \<lparr>sb_substantially := True, sb_ch := (1/10, 3)\<rparr>)"
proof -
  let ?r = "scenario_rb_at (105 + sqrt 5) 2"
  let ?t = "scenario_sb_at (105 + sqrt 5) 2"
  have n: "Suc 2 = 3" "Suc 3 = 4" by simp_all
  note rc = scenario_rb_checks[of "[10]" 2, unfolded n] scenario_rb_checks(2)[of "[10]" 3, unfolded n]
  note sc = scenario_sb_checks[of "[100]" 2, unfolded n] scenario_sb_checks(2)[of "[100]" 3, unfolded n]
  note cu = scenario_rb_at_catch_up[of "105 + sqrt 5" 2]
    scenario_sb_at_catch_up[of scenario_env "105 + sqrt 5" 2]
  have b: "rb_check scenario_env scenario_net_leapt ?r
             = Inr (True, ?r\<lparr>rb_substantially := False, rb_ch := (1/10, 4)\<rparr>)"
    "sb_check scenario_env scenario_net_leapt ?t
             = Inr (True, ?t\<lparr>sb_substantially := False, sb_ch := (1/10, 4)\<rparr>)"
    using check_classification
      [where net = scenario_net_leapt and E = scenario_env and st = ?r and ?st1.0 = ?r
         and s = False and ?c1.0 = "(1/10, 3)" and l = True and ?c2.0 = "(1/10, 4)"
         and t = ?t and ?t1.0 = ?t and s' = False and ?d1.0 = "(1/10, 3)" and l' = True
         and ?d2.0 = "(1/10, 4)"]
      cu rc sc
    by simp_all
  have a: "rb_check scenario_env scenario_net ?r
             = Inr (True, ?r\<lparr>rb_substantially := True, rb_ch := (1/10, 3)\<rparr>)"
    "sb_check scenario_env scenario_net ?t
             = Inr (True, ?t\<lparr>sb_substantially := True, sb_ch := (1/10, 3)\<rparr>)"
    using check_classification
      [where net = scenario_net and E = scenario_env and st = ?r and ?st1.0 = ?r
         and s = True and ?c1.0 = "(1/10, 3)"
         and l = "fst (RBChecker_check scenario_env scenario_net 1 [10] [[100]] True (1/10, 3))"
         and ?c2.0 = "snd (RBChecker_check scenario_env scenario_net 1 [10] [[100]] True (1/10, 3))"
         and t = ?t and ?t1.0 = ?t and s' = True and ?d1.0 = "(1/10, 3)"
         and l' = "fst (SBChecker_check scenario_env scenario_net 1 [100] [100] [1] True (1/10, 3))"
         and ?d2.0 = "snd (SBChecker_check scenario_env scenario_net 1 [100] [100] [1] True (1/10, 3))"]
      cu rc sc
    by simp_all
  show ?thesis
    by (intro conjI cu rc sc a b)
qed

text \<open>
  C3. The tau that enters the retry loop of \<^verbatim>\<open>getNewTau\<close>. On the first call of a
  checker (\<^verbatim>\<open>preCalc\<close> set) it is the value that the pre-leap calculator
  \<^verbatim>\<open>ptc.getNewTau\<close> gives; on every later call it is the incoming tau times \<open>q\<close>
  if \<^verbatim>\<open>substantially\<close> is set (the previous step was substantially accepted) and
  times \<open>pp\<close> otherwise (barely accepted). The loop starts from that value with
  \<^verbatim>\<open>preCalc\<close> cleared, and the tau that \<^verbatim>\<open>getNewTau\<close> returns is that value
  multiplied by \<open>p\<close> once for every rejected trial.
\<close>

theorem getNewTau_initial_tau:
  "(rb_catch_up net st = Inr st1 \<longrightarrow>
      rb_getNewTau E net tau st
        = map_option Inr
            (rb_precheck E net
               (if rb_preCalc st then ptc_getNewTau E net tau
                else if rb_substantially st then tau * rb_q st else tau * rb_pp st)
               (st1\<lparr>rb_preCalc := False\<rparr>))) \<and>
   (rb_getNewTau E net tau st = Some (Inr (tau', st')) \<longrightarrow>
      (\<exists>n. tau' = (if rb_preCalc st then ptc_getNewTau E net tau
                    else if rb_substantially st then tau * rb_q st else tau * rb_pp st)
                   * rb_p st ^ n)
      \<and> \<not> rb_preCalc st') \<and>
   (sb_catch_up E net t = Inr t1 \<longrightarrow>
      sb_getNewTau E net tau t
        = map_option Inr
            (sb_precheck E net
               (if sb_preCalc t then ptc_getNewTau E net tau
                else if sb_substantially t then tau * sb_q t else tau * sb_pp t)
               (t1\<lparr>sb_preCalc := False\<rparr>))) \<and>
   (sb_getNewTau E net tau t = Some (Inr (tau', t')) \<longrightarrow>
      (\<exists>n. tau' = (if sb_preCalc t then ptc_getNewTau E net tau
                    else if sb_substantially t then tau * sb_q t else tau * sb_pp t)
                   * sb_p t ^ n)
      \<and> \<not> sb_preCalc t')"
proof (intro conjI impI)
  assume "rb_catch_up net st = Inr st1"
  from rb_getNewTau_start[OF this, of E tau]
  show "rb_getNewTau E net tau st
        = map_option Inr
            (rb_precheck E net
               (if rb_preCalc st then ptc_getNewTau E net tau
                else if rb_substantially st then tau * rb_q st else tau * rb_pp st)
               (st1\<lparr>rb_preCalc := False\<rparr>))"
    by (simp only: rb_start_tau_def)
next
  assume a: "rb_getNewTau E net tau st = Some (Inr (tau', st'))"
  from rb_getNewTau_result[OF a]
  show "\<exists>n. tau' = (if rb_preCalc st then ptc_getNewTau E net tau
                    else if rb_substantially st then tau * rb_q st else tau * rb_pp st)
                   * rb_p st ^ n"
    by (simp only: rb_start_tau_def)
  from rb_getNewTau_result[OF a] show "\<not> rb_preCalc st'" by (rule conjunct2)
next
  assume "sb_catch_up E net t = Inr t1"
  from sb_getNewTau_start[OF this, of tau]
  show "sb_getNewTau E net tau t
        = map_option Inr
            (sb_precheck E net
               (if sb_preCalc t then ptc_getNewTau E net tau
                else if sb_substantially t then tau * sb_q t else tau * sb_pp t)
               (t1\<lparr>sb_preCalc := False\<rparr>))"
    by (simp only: sb_start_tau_def)
next
  assume a: "sb_getNewTau E net tau t = Some (Inr (tau', t'))"
  from sb_getNewTau_result[OF a]
  show "\<exists>n. tau' = (if sb_preCalc t then ptc_getNewTau E net tau
                    else if sb_substantially t then tau * sb_q t else tau * sb_pp t)
                   * sb_p t ^ n"
    by (simp only: sb_start_tau_def)
  from sb_getNewTau_result[OF a] show "\<not> sb_preCalc t'" by (rule conjunct2)
qed


theorem getNewTau_initial_tau_witness:
  "rb_catch_up scenario_net scenario_rb = Inr scenario_rb \<and>
   rb_preCalc scenario_rb \<and>
   rb_getNewTau scenario_env scenario_net 7 scenario_rb
     = map_option Inr
         (rb_precheck scenario_env scenario_net (ptc_getNewTau scenario_env scenario_net 7)
            (scenario_rb\<lparr>rb_preCalc := False\<rparr>)) \<and>
   rb_getNewTau scenario_env scenario_net 7 scenario_rb
     = Some (Inr (1/2, scenario_rb_at (105 + sqrt 5) 2)) \<and>
   (\<exists>n. 1/2 = ptc_getNewTau scenario_env scenario_net 7 * rb_p scenario_rb ^ n) \<and>
   rb_getNewTau scenario_env scenario_net_leapt (1/2)
       ((scenario_rb_at (105 + sqrt 5) 4)\<lparr>rb_oldPop := [[105]]\<rparr>)
     = Some (Inr (9/20, (scenario_rb_at (219/2 + sqrt (9/2)) 5)\<lparr>rb_oldPop := [[105]]\<rparr>)) \<and>
   (\<exists>n. 9/20 = 1/2 * rb_pp ((scenario_rb_at (105 + sqrt 5) 4)\<lparr>rb_oldPop := [[105]]\<rparr>)
                  * rb_p ((scenario_rb_at (105 + sqrt 5) 4)\<lparr>rb_oldPop := [[105]]\<rparr>) ^ n) \<and>
   rb_getNewTau scenario_env scenario_net (1/2)
       ((scenario_rb_at (105 + sqrt 5) 3)\<lparr>rb_substantially := True\<rparr>)
     = Some (Inr (3/8, (scenario_rb_at (415/4 + sqrt (15/4)) 5)\<lparr>rb_substantially := True\<rparr>)) \<and>
   (\<exists>n. 3/8 = 1/2 * rb_q ((scenario_rb_at (105 + sqrt 5) 3)\<lparr>rb_substantially := True\<rparr>)
                 * rb_p ((scenario_rb_at (105 + sqrt 5) 3)\<lparr>rb_substantially := True\<rparr>) ^ n) \<and>
   sb_catch_up scenario_env scenario_net scenario_sb = Inr scenario_sb \<and>
   sb_preCalc scenario_sb \<and>
   sb_getNewTau scenario_env scenario_net 7 scenario_sb
     = map_option Inr
         (sb_precheck scenario_env scenario_net (ptc_getNewTau scenario_env scenario_net 7)
            (scenario_sb\<lparr>sb_preCalc := False\<rparr>)) \<and>
   sb_getNewTau scenario_env scenario_net 7 scenario_sb
     = Some (Inr (1/2, scenario_sb_at (105 + sqrt 5) 2)) \<and>
   (\<exists>n. 1/2 = ptc_getNewTau scenario_env scenario_net 7 * sb_p scenario_sb ^ n) \<and>
   sb_getNewTau scenario_env scenario_net_leapt (1/2)
       ((scenario_sb_at (105 + sqrt 5) 4)\<lparr>sb_oldPop := [105]\<rparr>)
     = Some (Inr (9/20, (scenario_sb_at (219/2 + sqrt (9/2)) 5)\<lparr>sb_oldPop := [105]\<rparr>)) \<and>
   (\<exists>n. 9/20 = 1/2 * sb_pp ((scenario_sb_at (105 + sqrt 5) 4)\<lparr>sb_oldPop := [105]\<rparr>)
                  * sb_p ((scenario_sb_at (105 + sqrt 5) 4)\<lparr>sb_oldPop := [105]\<rparr>) ^ n) \<and>
   sb_getNewTau scenario_env scenario_net (1/2)
       ((scenario_sb_at (105 + sqrt 5) 3)\<lparr>sb_substantially := True\<rparr>)
     = Some (Inr (3/8, (scenario_sb_at (415/4 + sqrt (15/4)) 5)\<lparr>sb_substantially := True\<rparr>)) \<and>
   (\<exists>n. 3/8 = 1/2 * sb_q ((scenario_sb_at (105 + sqrt 5) 3)\<lparr>sb_substantially := True\<rparr>)
                 * sb_p ((scenario_sb_at (105 + sqrt 5) 3)\<lparr>sb_substantially := True\<rparr>) ^ n)"
proof -
  let ?x = "105 + sqrt 5"
  let ?rB = "(scenario_rb_at ?x 4)\<lparr>rb_oldPop := [[105]]\<rparr>"
  let ?rC = "(scenario_rb_at ?x 3)\<lparr>rb_substantially := True\<rparr>"
  let ?sB = "(scenario_sb_at ?x 4)\<lparr>sb_oldPop := [105]\<rparr>"
  let ?sC = "(scenario_sb_at ?x 3)\<lparr>sb_substantially := True\<rparr>"
  have n: "Suc 4 = 5" "Suc (Suc 3) = 5" by simp_all
  have pc: "rb_preCalc scenario_rb" "sb_preCalc scenario_sb"
    by (simp_all add: scenario_rb_def scenario_sb_def)
  note gA = scenario_rb_getNewTau[of 7] scenario_sb_getNewTau[of 7]
  note gB = scenario_rb_getNewTau_barely(2)[of ?x 4, unfolded n]
    scenario_sb_getNewTau_barely(2)[of ?x 4, unfolded n]
  note gC = scenario_rb_getNewTau_substantial(2)[of ?x 3, unfolded n]
    scenario_sb_getNewTau_substantial(2)[of ?x 3, unfolded n]
  note T = getNewTau_initial_tau
  have F: "rb_getNewTau scenario_env scenario_net 7 scenario_rb
     = map_option Inr
         (rb_precheck scenario_env scenario_net (ptc_getNewTau scenario_env scenario_net 7)
            (scenario_rb\<lparr>rb_preCalc := False\<rparr>))"
    "sb_getNewTau scenario_env scenario_net 7 scenario_sb
     = map_option Inr
         (sb_precheck scenario_env scenario_net (ptc_getNewTau scenario_env scenario_net 7)
            (scenario_sb\<lparr>sb_preCalc := False\<rparr>))"
    using T[where E = scenario_env and net = scenario_net and tau = 7 and st = scenario_rb
          and ?st1.0 = scenario_rb and t = scenario_sb and ?t1.0 = scenario_sb]
      scenario_synced pc
    by simp_all
  from T[where E = scenario_env and net = scenario_net and tau = 7 and st = scenario_rb
          and tau' = "1/2" and st' = "scenario_rb_at ?x 2"
          and t = scenario_sb and t' = "scenario_sb_at ?x 2"] gA pc
  have A: "\<exists>n. 1/2 = ptc_getNewTau scenario_env scenario_net 7 * rb_p scenario_rb ^ n"
    "\<exists>n. 1/2 = ptc_getNewTau scenario_env scenario_net 7 * sb_p scenario_sb ^ n"
    by simp_all
  from T[where E = scenario_env and net = scenario_net_leapt and tau = "1/2" and st = ?rB
          and tau' = "9/20" and st' = "(scenario_rb_at (219/2 + sqrt (9/2)) 5)\<lparr>rb_oldPop := [[105]]\<rparr>"
          and t = ?sB and t' = "(scenario_sb_at (219/2 + sqrt (9/2)) 5)\<lparr>sb_oldPop := [105]\<rparr>"] gB
  have B: "\<exists>n. 9/20 = 1/2 * rb_pp ?rB * rb_p ?rB ^ n" "\<exists>n. 9/20 = 1/2 * sb_pp ?sB * sb_p ?sB ^ n"
    by simp_all
  from T[where E = scenario_env and net = scenario_net and tau = "1/2" and st = ?rC
          and tau' = "3/8" and st' = "(scenario_rb_at (415/4 + sqrt (15/4)) 5)\<lparr>rb_substantially := True\<rparr>"
          and t = ?sC and t' = "(scenario_sb_at (415/4 + sqrt (15/4)) 5)\<lparr>sb_substantially := True\<rparr>"] gC
  have C: "\<exists>n. 3/8 = 1/2 * rb_q ?rC * rb_p ?rC ^ n" "\<exists>n. 3/8 = 1/2 * sb_q ?sC * sb_p ?sC ^ n"
    by simp_all
  show ?thesis
    by (intro conjI scenario_synced pc F gA gB gC A B C)
qed

text \<open>
  C10. Copy construction resets the first-call state. The copy constructor always
  returns, the copy has \<^verbatim>\<open>preCalc\<close> set whatever the flags of the original are, and
  the first \<^verbatim>\<open>getNewTau\<close> on the copy, once the registry has caught up, starts
  the retry loop from the tau of the pre-leap calculator \<^verbatim>\<open>ptc.getNewTau\<close>.
\<close>

theorem copy_resets_preCalc:
  "(\<exists>cp. rb_copy ac0 s0 net orig = Inr cp \<and> rb_preCalc cp \<and>
      rb_getNewTau E net' tau cp
        = (case rb_catch_up net' cp of
             Inl e \<Rightarrow> Some (Inl e)
           | Inr st1 \<Rightarrow>
               map_option Inr
                 (rb_precheck E net' (ptc_getNewTau E net' tau) (st1\<lparr>rb_preCalc := False\<rparr>)))) \<and>
   (\<exists>cp. sb_copy E ac0 s0 net sorig = Inr cp \<and> sb_preCalc cp \<and>
      sb_getNewTau E net' tau cp
        = (case sb_catch_up E net' cp of
             Inl e \<Rightarrow> Some (Inl e)
           | Inr t1 \<Rightarrow>
               map_option Inr
                 (sb_precheck E net' (ptc_getNewTau E net' tau) (t1\<lparr>sb_preCalc := False\<rparr>))))"
proof (rule conjI)
  from rb_copy_Inr[of ac0 s0 net orig] obtain cp where c: "rb_copy ac0 s0 net orig = Inr cp"
    by blast
  from c rb_copy_getNewTau(1)[OF c] rb_copy_getNewTau(2)[OF c, of E net' tau]
  show "\<exists>cp. rb_copy ac0 s0 net orig = Inr cp \<and> rb_preCalc cp \<and>
      rb_getNewTau E net' tau cp
        = (case rb_catch_up net' cp of
             Inl e \<Rightarrow> Some (Inl e)
           | Inr st1 \<Rightarrow>
               map_option Inr
                 (rb_precheck E net' (ptc_getNewTau E net' tau) (st1\<lparr>rb_preCalc := False\<rparr>)))"
    by (intro exI[of _ cp] conjI)
next
  from sb_copy_Inr[of E ac0 s0 net sorig] obtain cp where c: "sb_copy E ac0 s0 net sorig = Inr cp"
    by blast
  from c sb_copy_getNewTau(1)[OF c] sb_copy_getNewTau(2)[OF c, of E net' tau]
  show "\<exists>cp. sb_copy E ac0 s0 net sorig = Inr cp \<and> sb_preCalc cp \<and>
      sb_getNewTau E net' tau cp
        = (case sb_catch_up E net' cp of
             Inl e \<Rightarrow> Some (Inl e)
           | Inr t1 \<Rightarrow>
               map_option Inr
                 (sb_precheck E net' (ptc_getNewTau E net' tau) (t1\<lparr>sb_preCalc := False\<rparr>)))"
    by (intro exI[of _ cp] conjI)
qed


theorem copy_resets_preCalc_witness:
  "\<not> rb_preCalc (scenario_rb_at (105 + sqrt 5) 2) \<and>
   rb_copy scenario_aCalc False scenario_net (scenario_rb_at (105 + sqrt 5) 2)
     = Inr (scenario_rb\<lparr>rb_ch := (1/10, 2)\<rparr>) \<and>
   rb_preCalc (scenario_rb\<lparr>rb_ch := (1/10, 2)\<rparr>) \<and>
   rb_getNewTau scenario_env scenario_net (1/2) (scenario_rb\<lparr>rb_ch := (1/10, 2)\<rparr>)
     = Some (Inr (1/2, scenario_rb_at (105 + sqrt 5) 4)) \<and>
   \<not> sb_preCalc (scenario_sb_at (105 + sqrt 5) 2) \<and>
   sb_copy scenario_env scenario_aCalc False scenario_net (scenario_sb_at (105 + sqrt 5) 2)
     = Inr (scenario_sb\<lparr>sb_ch := (1/10, 2)\<rparr>) \<and>
   sb_preCalc (scenario_sb\<lparr>sb_ch := (1/10, 2)\<rparr>) \<and>
   sb_getNewTau scenario_env scenario_net (1/2) (scenario_sb\<lparr>sb_ch := (1/10, 2)\<rparr>)
     = Some (Inr (1/2, scenario_sb_at (105 + sqrt 5) 4))"
proof -
  let ?x = "105 + sqrt 5"
  let ?rc = "scenario_rb\<lparr>rb_ch := (1/10, 2)\<rparr>"
  let ?sc = "scenario_sb\<lparr>sb_ch := (1/10, 2)\<rparr>"
  note cr = scenario_rb_copy[of ?x 2] and cs = scenario_sb_copy[of ?x 2]
  have n: "Suc (Suc 2) = 4" by simp
  have cu: "rb_catch_up scenario_net ?rc = Inr ?rc"
    "sb_catch_up scenario_env scenario_net ?sc = Inr ?sc"
    by (rule rb_catch_up_synced, simp add: scenario_rb_def,
        rule sb_catch_up_synced, simp add: scenario_sb_def)
  have e: "?rc\<lparr>rb_preCalc := False\<rparr> = scenario_rb_at 0 2"
    "?sc\<lparr>sb_preCalc := False\<rparr> = scenario_sb_at 0 2"
    by (simp_all add: scenario_rb_at_def scenario_sb_at_def scenario_rb_def scenario_sb_def)
  have p: "ptc_getNewTau scenario_env scenario_net (1/2) = 1" by (simp add: scenario_env_def)
  from copy_resets_preCalc
         [where ?ac0.0 = scenario_aCalc and ?s0.0 = False and net = scenario_net
            and orig = "scenario_rb_at ?x 2" and sorig = "scenario_sb_at ?x 2"
            and E = scenario_env and net' = scenario_net and tau = "1/2"]
  have r: "rb_preCalc ?rc"
    "rb_getNewTau scenario_env scenario_net (1/2) ?rc
       = Some (Inr (1/2, scenario_rb_at ?x 4))"
    "sb_preCalc ?sc"
    "sb_getNewTau scenario_env scenario_net (1/2) ?sc
       = Some (Inr (1/2, scenario_sb_at ?x 4))"
    unfolding cr cs
    by (simp_all add: cu e p scenario_rb_first_call scenario_sb_first_call n)
  have o: "\<not> rb_preCalc (scenario_rb_at ?x 2)" "\<not> sb_preCalc (scenario_sb_at ?x 2)"
    by simp_all
  show ?thesis by (intro conjI o cr cs r)
qed

text \<open>
  C6, as the code has it. The sign of the deviation follows the sign of the mean
  where tau and the effective propensities are not negative: for every tracked
  species \<open>j\<close>, every stoichiometry, every tau that is not negative and all
  effective propensities of the reactions of \<open>j\<close> that are not negative, the
  entries of the two arrays that enter the projection satisfy: a negative
  \<^verbatim>\<open>mean_dX[j]\<close> comes with a negative \<^verbatim>\<open>sdev_dX[j]\<close>, and a non-negative mean
  with a non-negative deviation.
\<close>

theorem sdev_sign_matches_mean:
  assumes "0 \<le> tau"
    and "j < length (X_eff ac)"
    and "\<forall>v<length (spInRxn ac ! j). 0 \<le> a_eff ac ! (spInRxn ac ! j ! v)"
  shows "(mean_dX_array ac tau ! j < 0 \<longrightarrow> sdev_dX_array ac tau ! j < 0)
       \<and> (0 \<le> mean_dX_array ac tau ! j \<longrightarrow> 0 \<le> sdev_dX_array ac tau ! j)"
  using sdev_dX_sign[OF assms(1,3)] by (simp only: moment_arrays_nth[OF assms(2)])

theorem sdev_sign_matches_mean_witness:
  "(0::real) \<le> 1/2 \<and> 0 < length (X_eff scenario_aCalc) \<and>
   length (spInRxn scenario_aCalc ! 0) = 1 \<and>
   0 \<le> a_eff scenario_aCalc ! (spInRxn scenario_aCalc ! 0 ! 0) \<and>
   mean_dX_array scenario_aCalc (1/2) ! 0 = 5 \<and>
   0 \<le> sdev_dX_array scenario_aCalc (1/2) ! 0 \<and>
   mean_dX_array (scenario_aCalc\<lparr>stoich := [[- 1]]\<rparr>) (1/2) ! 0 = - 5 \<and>
   sdev_dX_array (scenario_aCalc\<lparr>stoich := [[- 1]]\<rparr>) (1/2) ! 0 < 0"
proof -
  let ?d = "scenario_aCalc\<lparr>stoich := [[- 1]]\<rparr>"
  have h1: "0 < length (X_eff scenario_aCalc)" "0 < length (X_eff ?d)" by simp_all
  have h2: "\<forall>v<length (spInRxn scenario_aCalc ! 0).
       0 \<le> a_eff scenario_aCalc ! (spInRxn scenario_aCalc ! 0 ! v)"
    "\<forall>v<length (spInRxn ?d ! 0). 0 \<le> a_eff ?d ! (spInRxn ?d ! 0 ! v)"
    by (simp_all add: scenario_aCalc_def)
  have m: "mean_dX_array scenario_aCalc (1/2) ! 0 = 5" "mean_dX_array ?d (1/2) ! 0 = - 5"
    by (simp_all add: mean_dX_array_def mean_dX_def accum_dX_def scenario_aCalc_def)
  have t: "(0::real) \<le> 1/2" by simp
  from sdev_sign_matches_mean[OF t h1(1) h2(1)] m(1)
  have a: "0 \<le> sdev_dX_array scenario_aCalc (1/2) ! 0" by simp
  from sdev_sign_matches_mean[OF t h1(2) h2(2)] m(2)
  have b: "sdev_dX_array ?d (1/2) ! 0 < 0" by simp
  have h3: "length (spInRxn scenario_aCalc ! 0) = 1"
    "0 \<le> a_eff scenario_aCalc ! (spInRxn scenario_aCalc ! 0 ! 0)"
    by (simp_all add: scenario_aCalc_def)
  show ?thesis by (intro conjI t h1(1) h3 m a b)
qed

text \<open>
  C6, as the specification has it, for all propensity and stoichiometry inputs.
  It fails where the sum under the square root vanishes while the mean does
  not: one species in two reactions of stoichiometry \<open>1\<close> and \<open>- 1\<close> and of effective
  propensities \<open>- 1\<close> and \<open>1\<close>, at \<open>tau = 1\<close>. The mean is \<open>- 2\<close>, negative, and
  the deviation is the negated square root of \<open>0\<close>, which is not less than \<open>0\<close>
  (nor is the \<^verbatim>\<open>-0.0\<close> of a \<^verbatim>\<open>double\<close>, which compares equal to \<^verbatim>\<open>0.0\<close>).
\<close>

theorem sdev_sign_matches_mean_counterexample:
  "0 < length (X_eff negative_aCalc) \<and>
   mean_dX_array negative_aCalc 1 ! 0 = - 2 \<and>
   mean_dX_array negative_aCalc 1 ! 0 < 0 \<and>
   sdev_dX_array negative_aCalc 1 ! 0 = 0 \<and>
   \<not> sdev_dX_array negative_aCalc 1 ! 0 < 0"
  by (simp add: mean_dX_array_def sdev_dX_array_def mean_dX_def sdev_dX_def accum_dX_def
      negative_aCalc_def)

text \<open>
  C1, as the code has it. In every pass of the retry loop of \<^verbatim>\<open>getNewTau\<close>, with
  the effective propensities of that pass, the mean change of a tracked species
  \<open>S\<close> is \<open>M = tau * (\<Sum>u. stoich[S][u] * a_eff[spInRxn[S][u]])\<close> and its deviation
  is \<open>D = sqrt (tau * (\<Sum>u. stoich[S][u]\<^sup>2 * a_eff[spInRxn[S][u]]))\<close>, with tau
  under the square root, negated when \<open>M\<close> is negative. The projected value is
  the baseline plus \<open>M\<close> plus the signed \<open>D\<close>: \<^verbatim>\<open>projPop[v][j]\<close> for the species
  \<open>S = rateSp[v][j]\<close> in the reaction-based checker, \<^verbatim>\<open>projPop[j]\<close> for \<open>S = j\<close>
  in the species-based one. In the end-to-end scenario the first trial, at
  \<open>tau = 1\<close>, is rejected, the second, at \<open>tau = 0.5\<close>, is accepted, and the
  projected population is then \<open>105 + sqrt 5\<close>, between 107.23 and 107.24.
\<close>

theorem projected_population:
  "(rb_trial E net tau st = (ok, st') \<longrightarrow>
      v < length (rb_projPop st) \<longrightarrow> j < length (rb_projPop st ! v) \<longrightarrow>
      j < length (rxn net ! v) \<longrightarrow>
      rateSp (rb_aCalc st') ! v ! j < length (X_eff (rb_aCalc st')) \<longrightarrow>
      (let ac = rb_aCalc st'; S = rateSp ac ! v ! j;
           M = tau * (\<Sum>u<length (spInRxn ac ! S). stoich ac ! S ! u * a_eff ac ! (spInRxn ac ! S ! u));
           D = sqrt (tau * (\<Sum>u<length (spInRxn ac ! S).
                              (stoich ac ! S ! u)\<^sup>2 * a_eff ac ! (spInRxn ac ! S ! u)))
       in ac = calc_aEff E net tau (rb_aCalc st) \<and>
          rb_projPop st' ! v ! j = rb_oldPop st ! v ! j + M + (if M < 0 then - D else D))) \<and>
   (sb_trial E net tau t = (ok', t') \<longrightarrow>
      i < length (sb_projPop t) \<longrightarrow> i < length (X_eff (sb_aCalc t')) \<longrightarrow>
      (let ac = sb_aCalc t';
           M = tau * (\<Sum>u<length (spInRxn ac ! i). stoich ac ! i ! u * a_eff ac ! (spInRxn ac ! i ! u));
           D = sqrt (tau * (\<Sum>u<length (spInRxn ac ! i).
                              (stoich ac ! i ! u)\<^sup>2 * a_eff ac ! (spInRxn ac ! i ! u)))
       in ac = calc_aEff E net tau (sb_aCalc t) \<and>
          sb_projPop t' ! i = sb_oldPop t ! i + M + (if M < 0 then - D else D))) \<and>
   rb_getNewTau scenario_env scenario_net 1 scenario_rb
     = Some (Inr (1/2, scenario_rb_at (105 + sqrt 5) 2)) \<and>
   rb_projPop (scenario_rb_at (105 + sqrt 5) 2) = [[105 + sqrt 5]] \<and>
   sb_getNewTau scenario_env scenario_net 1 scenario_sb
     = Some (Inr (1/2, scenario_sb_at (105 + sqrt 5) 2)) \<and>
   sb_projPop (scenario_sb_at (105 + sqrt 5) 2) = [105 + sqrt 5] \<and>
   10723/100 < 105 + sqrt 5 \<and> 105 + sqrt 5 < 10724/100"
proof (intro conjI impI)
  assume a: "rb_trial E net tau st = (ok, st')" "v < length (rb_projPop st)"
    "j < length (rb_projPop st ! v)" "j < length (rxn net ! v)"
    "rateSp (rb_aCalc st') ! v ! j < length (X_eff (rb_aCalc st'))"
  from rb_trial_projPop[OF a]
  show "let ac = rb_aCalc st'; S = rateSp ac ! v ! j;
           M = tau * (\<Sum>u<length (spInRxn ac ! S). stoich ac ! S ! u * a_eff ac ! (spInRxn ac ! S ! u));
           D = sqrt (tau * (\<Sum>u<length (spInRxn ac ! S).
                              (stoich ac ! S ! u)\<^sup>2 * a_eff ac ! (spInRxn ac ! S ! u)))
       in ac = calc_aEff E net tau (rb_aCalc st) \<and>
          rb_projPop st' ! v ! j = rb_oldPop st ! v ! j + M + (if M < 0 then - D else D)"
    unfolding Let_def by (simp only: moments_sums(1) sdev_dX_if simp_thms)
next
  assume a: "sb_trial E net tau t = (ok', t')" "i < length (sb_projPop t)"
    "i < length (X_eff (sb_aCalc t'))"
  from sb_trial_projPop[OF a]
  show "let ac = sb_aCalc t';
           M = tau * (\<Sum>u<length (spInRxn ac ! i). stoich ac ! i ! u * a_eff ac ! (spInRxn ac ! i ! u));
           D = sqrt (tau * (\<Sum>u<length (spInRxn ac ! i).
                              (stoich ac ! i ! u)\<^sup>2 * a_eff ac ! (spInRxn ac ! i ! u)))
       in ac = calc_aEff E net tau (sb_aCalc t) \<and>
          sb_projPop t' ! i = sb_oldPop t ! i + M + (if M < 0 then - D else D)"
    unfolding Let_def by (simp only: moments_sums(1) sdev_dX_if simp_thms)
next
  show "rb_getNewTau scenario_env scenario_net 1 scenario_rb
     = Some (Inr (1/2, scenario_rb_at (105 + sqrt 5) 2))" by (rule scenario_rb_getNewTau)
  show "sb_getNewTau scenario_env scenario_net 1 scenario_sb
     = Some (Inr (1/2, scenario_sb_at (105 + sqrt 5) 2))" by (rule scenario_sb_getNewTau)
  show "rb_projPop (scenario_rb_at (105 + sqrt 5) 2) = [[105 + sqrt 5]]" by simp
  show "sb_projPop (scenario_sb_at (105 + sqrt 5) 2) = [105 + sqrt 5]" by simp
  from sqrt5_bounds show "10723/100 < 105 + sqrt 5" "105 + sqrt 5 < 10724/100" by simp_all
qed


theorem projected_population_witness:
  "rb_trial scenario_env scenario_net (1/2) (scenario_rb_at (110 + sqrt 10) 1)
     = (True, scenario_rb_at (105 + sqrt 5) 2) \<and>
   0 < length (rb_projPop (scenario_rb_at (110 + sqrt 10) 1)) \<and>
   0 < length (rb_projPop (scenario_rb_at (110 + sqrt 10) 1) ! 0) \<and>
   0 < length (rxn scenario_net ! 0) \<and>
   rateSp (rb_aCalc (scenario_rb_at (105 + sqrt 5) 2)) ! 0 ! 0
     < length (X_eff (rb_aCalc (scenario_rb_at (105 + sqrt 5) 2))) \<and>
   rb_projPop (scenario_rb_at (105 + sqrt 5) 2) ! 0 ! 0
     = rb_oldPop (scenario_rb_at (110 + sqrt 10) 1) ! 0 ! 0 + 1/2 * (1 * 10)
       + sqrt (1/2 * (1\<^sup>2 * 10)) \<and>
   sb_trial scenario_env scenario_net (1/2) (scenario_sb_at (110 + sqrt 10) 1)
     = (True, scenario_sb_at (105 + sqrt 5) 2) \<and>
   0 < length (sb_projPop (scenario_sb_at (110 + sqrt 10) 1)) \<and>
   0 < length (X_eff (sb_aCalc (scenario_sb_at (105 + sqrt 5) 2))) \<and>
   sb_projPop (scenario_sb_at (105 + sqrt 5) 2) ! 0
     = sb_oldPop (scenario_sb_at (110 + sqrt 10) 1) ! 0 + 1/2 * (1 * 10)
       + sqrt (1/2 * (1\<^sup>2 * 10))"
proof -
  let ?r = "scenario_rb_at (110 + sqrt 10) 1" and ?r' = "scenario_rb_at (105 + sqrt 5) 2"
  let ?t = "scenario_sb_at (110 + sqrt 10) 1" and ?t' = "scenario_sb_at (105 + sqrt 5) 2"
  have h: "0 < length (rb_projPop ?r)" "0 < length (rb_projPop ?r ! 0)"
    "0 < length (rxn scenario_net ! 0)"
    "rateSp (rb_aCalc ?r') ! 0 ! 0 < length (X_eff (rb_aCalc ?r'))"
    "0 < length (sb_projPop ?t)" "0 < length (X_eff (sb_aCalc ?t'))"
    by simp_all
  have f: "spInRxn scenario_aCalc = [[0]]" "stoich scenario_aCalc = [[1]]"
    by (simp_all add: scenario_aCalc_def)
  from projected_population
         [where E = scenario_env and net = scenario_net and tau = "1/2" and st = ?r and ok = True
            and st' = ?r' and v = 0 and j = 0 and t = ?t and ok' = True and t' = ?t' and i = 0]
       scenario_rb_trial_2 scenario_sb_trial_2 h
  have c: "rb_projPop ?r' ! 0 ! 0
             = rb_oldPop ?r ! 0 ! 0 + 1/2 * (1 * 10) + sqrt (1/2 * (1\<^sup>2 * 10))"
    "sb_projPop ?t' ! 0 = sb_oldPop ?t ! 0 + 1/2 * (1 * 10) + sqrt (1/2 * (1\<^sup>2 * 10))"
    by (simp_all add: Let_def f)
  show ?thesis
    by (intro conjI scenario_rb_trial_2 scenario_sb_trial_2 h c)
qed

text \<open>
  C1, as the specification has it, with the deviation \<open>tau * sqrt (\<Sum> ...)\<close>: in the
  scenario, the deviation at \<open>tau = 0.5\<close> is \<open>sqrt 5\<close> and not \<open>0.5 * sqrt 10\<close>,
  and the projected population after the single shrink is more than 0.5 away from
  106.58.
\<close>

theorem projected_population_counterexample:
  "rb_new scenario_env scenario_aCalc False (1/10) (1/2) (9/10) (3/2) (1/100) scenario_net
     = Inr scenario_rb \<and>
   rb_getNewTau scenario_env scenario_net 1 scenario_rb
     = Some (Inr (1/2, scenario_rb_at (105 + sqrt 5) 2)) \<and>
   rb_projPop (scenario_rb_at (105 + sqrt 5) 2) = [[105 + sqrt 5]] \<and>
   sdev_dX_array (rb_aCalc (scenario_rb_at (105 + sqrt 5) 2)) (1/2) ! 0 = sqrt 5 \<and>
   sdev_dX_array (rb_aCalc (scenario_rb_at (105 + sqrt 5) 2)) (1/2) ! 0 \<noteq> 1/2 * sqrt (1\<^sup>2 * 10) \<and>
   1/2 < \<bar>(105 + sqrt 5) - 10658/100\<bar>"
proof -
  let ?ac = "rb_aCalc (scenario_rb_at (105 + sqrt 5) 2)"
  have d: "sdev_dX_array ?ac (1/2) ! 0 = sqrt 5"
    by (simp add: sdev_dX_array_def)
  have n: "sdev_dX_array ?ac (1/2) ! 0 \<noteq> 1/2 * sqrt (1\<^sup>2 * 10)"
    unfolding d using sqrt5_gt sqrt10_lt by simp
  have a: "1/2 < \<bar>(105 + sqrt 5) - 10658/100\<bar>"
    using sqrt5_bounds(1) by simp
  have p: "rb_projPop (scenario_rb_at (105 + sqrt 5) 2) = [[105 + sqrt 5]]" by simp
  note g = scenario_rb_getNewTau[of 1]
  show ?thesis
    by (rule conjI[OF scenario_new_rb conjI[OF g conjI[OF p conjI[OF d conjI[OF n a]]]]])
qed

text \<open>
  C2, as the code has it. The constructors of both checkers test three things, in
  this order and before the checker, the corrector or any registry entry is
  created: \<open>pp < p\<close>, \<open>q < 1.0\<close>, and \<open>w \<le> 0\<close> or \<open>w \<ge> 1\<close>. Each failed test
  ends construction with its own error and no checker exists afterwards. When
  the three tests pass and the constructors of the collaborators return, the
  construction succeeds with the parameters as given: \<open>pp\<close> is not compared with
  1, and \<open>eps\<close> and \<open>p\<close> are only handed to the constructors of the bound checker
  and of the binomial corrector.
\<close>

theorem constructor_validation:
  "(pp0 < p0 \<or> q0 < 1 \<or> w0 \<le> 0 \<or> 1 \<le> w0 \<longrightarrow>
      rb_new E ac0 s0 eps p0 pp0 q0 w0 net
        = Inl (if pp0 < p0 then pp_less_than_p
               else if q0 < 1 then q_less_than_one else w_out_of_range) \<and>
      sb_new E ac0 s0 eps p0 pp0 q0 w0 net
        = Inl (if pp0 < p0 then pp_less_than_p
               else if q0 < 1 then q_less_than_one else w_out_of_range)) \<and>
   (p0 \<le> pp0 \<and> 1 \<le> q0 \<and> 0 < w0 \<and> w0 < 1 \<longrightarrow>
      (RBChecker_new E net eps = Inr c \<longrightarrow> BinomialCorrector_RK_new E net p0 = Inr b \<longrightarrow>
         (\<exists>old proj. rb_new E ac0 s0 eps p0 pp0 q0 w0 net
            = Inr \<lparr>rb_p = p0, rb_pp = pp0, rb_q = q0, rb_w = w0, rb_preCalc = True,
                   rb_substantially = s0, rb_oldPop = old, rb_projPop = proj,
                   rb_ch = c, rb_bc = b, rb_aCalc = ac0\<rparr>)) \<and>
      (SBChecker_new E net eps = Inr c' \<longrightarrow> BinomialCorrector_RK_new E net p0 = Inr b \<longrightarrow>
       g_Getter_new E net = Inr gg \<longrightarrow>
         (\<exists>old g proj. sb_new E ac0 s0 eps p0 pp0 q0 w0 net
            = Inr \<lparr>sb_p = p0, sb_pp = pp0, sb_q = q0, sb_w = w0, sb_preCalc = True,
                   sb_substantially = s0, sb_oldPop = old, sb_old_g = g, sb_projPop = proj,
                   sb_ch = c', sb_bc = b, sb_gGet = gg, sb_aCalc = ac0\<rparr>)))"
proof (intro conjI impI)
  assume "pp0 < p0 \<or> q0 < 1 \<or> w0 \<le> 0 \<or> 1 \<le> w0"
  then show "rb_new E ac0 s0 eps p0 pp0 q0 w0 net
        = Inl (if pp0 < p0 then pp_less_than_p
               else if q0 < 1 then q_less_than_one else w_out_of_range)"
    by (auto simp: rb_new_def)
next
  assume "pp0 < p0 \<or> q0 < 1 \<or> w0 \<le> 0 \<or> 1 \<le> w0"
  then show "sb_new E ac0 s0 eps p0 pp0 q0 w0 net
        = Inl (if pp0 < p0 then pp_less_than_p
               else if q0 < 1 then q_less_than_one else w_out_of_range)"
    by (auto simp: sb_new_def)
next
  assume a: "p0 \<le> pp0 \<and> 1 \<le> q0 \<and> 0 < w0 \<and> w0 < 1"
    and c: "RBChecker_new E net eps = Inr c" "BinomialCorrector_RK_new E net p0 = Inr b"
  from a have "p0 \<le> pp0" "1 \<le> q0" "0 < w0" "w0 < 1" by simp_all
  then show "\<exists>old proj. rb_new E ac0 s0 eps p0 pp0 q0 w0 net
            = Inr \<lparr>rb_p = p0, rb_pp = pp0, rb_q = q0, rb_w = w0, rb_preCalc = True,
                   rb_substantially = s0, rb_oldPop = old, rb_projPop = proj,
                   rb_ch = c, rb_bc = b, rb_aCalc = ac0\<rparr>"
    using c by (rule rb_new_accepts)
next
  assume a: "p0 \<le> pp0 \<and> 1 \<le> q0 \<and> 0 < w0 \<and> w0 < 1"
    and c: "SBChecker_new E net eps = Inr c'" "BinomialCorrector_RK_new E net p0 = Inr b"
      "g_Getter_new E net = Inr gg"
  from a have "p0 \<le> pp0" "1 \<le> q0" "0 < w0" "w0 < 1" by simp_all
  then show "\<exists>old g proj. sb_new E ac0 s0 eps p0 pp0 q0 w0 net
            = Inr \<lparr>sb_p = p0, sb_pp = pp0, sb_q = q0, sb_w = w0, sb_preCalc = True,
                   sb_substantially = s0, sb_oldPop = old, sb_old_g = g, sb_projPop = proj,
                   sb_ch = c', sb_bc = b, sb_gGet = gg, sb_aCalc = ac0\<rparr>"
    using c by (rule sb_new_accepts)
qed

theorem constructor_validation_witness:
  "(1/4 :: real) < 1/2 \<and>
   rb_new scenario_env scenario_aCalc False (1/10) (1/2) (1/4) (3/2) (1/100) scenario_net
     = Inl pp_less_than_p \<and>
   sb_new scenario_env scenario_aCalc False (1/10) (1/2) (1/4) (3/2) (1/100) scenario_net
     = Inl pp_less_than_p \<and>
   (9/10 :: real) < 1 \<and>
   rb_new scenario_env scenario_aCalc False (1/10) (1/2) (9/10) (9/10) (1/100) scenario_net
     = Inl q_less_than_one \<and>
   sb_new scenario_env scenario_aCalc False (1/10) (1/2) (9/10) (9/10) (1/100) scenario_net
     = Inl q_less_than_one \<and>
   rb_new scenario_env scenario_aCalc False (1/10) (1/2) (9/10) (3/2) 1 scenario_net
     = Inl w_out_of_range \<and>
   sb_new scenario_env scenario_aCalc False (1/10) (1/2) (9/10) (3/2) 0 scenario_net
     = Inl w_out_of_range \<and>
   RBChecker_new scenario_env scenario_net (1/10) = Inr (1/10, 0) \<and>
   SBChecker_new scenario_env scenario_net (1/10) = Inr (1/10, 0) \<and>
   BinomialCorrector_RK_new scenario_env scenario_net (1/2) = Inr (1/2) \<and>
   g_Getter_new scenario_env scenario_net = Inr () \<and>
   (\<exists>old proj. rb_new scenario_env scenario_aCalc False (1/10) (1/2) (9/10) (3/2) (1/100)
                  scenario_net
      = Inr \<lparr>rb_p = 1/2, rb_pp = 9/10, rb_q = 3/2, rb_w = 1/100, rb_preCalc = True,
             rb_substantially = False, rb_oldPop = old, rb_projPop = proj,
             rb_ch = (1/10, 0), rb_bc = 1/2, rb_aCalc = scenario_aCalc\<rparr>) \<and>
   (\<exists>old g proj. sb_new scenario_env scenario_aCalc False (1/10) (1/2) (9/10) (3/2) (1/100)
                  scenario_net
      = Inr \<lparr>sb_p = 1/2, sb_pp = 9/10, sb_q = 3/2, sb_w = 1/100, sb_preCalc = True,
             sb_substantially = False, sb_oldPop = old, sb_old_g = g, sb_projPop = proj,
             sb_ch = (1/10, 0), sb_bc = 1/2, sb_gGet = (), sb_aCalc = scenario_aCalc\<rparr>)"
proof -
  note T = constructor_validation[where E = scenario_env and ?ac0.0 = scenario_aCalc
      and ?s0.0 = False and eps = "1/10" and ?p0.0 = "1/2" and net = scenario_net]
  have k: "RBChecker_new scenario_env scenario_net (1/10) = Inr (1/10, 0)"
    "SBChecker_new scenario_env scenario_net (1/10) = Inr (1/10, 0)"
    "BinomialCorrector_RK_new scenario_env scenario_net (1/2) = Inr (1/2)"
    "g_Getter_new scenario_env scenario_net = Inr ()"
    by (simp_all add: scenario_env_def)
  have n: "(1/4 :: real) < 1/2" "(9/10 :: real) < 1" by simp_all
  from T[where ?pp0.0 = "1/4" and ?q0.0 = "3/2" and ?w0.0 = "1/100"]
  have a: "rb_new scenario_env scenario_aCalc False (1/10) (1/2) (1/4) (3/2) (1/100) scenario_net
             = Inl pp_less_than_p"
    "sb_new scenario_env scenario_aCalc False (1/10) (1/2) (1/4) (3/2) (1/100) scenario_net
             = Inl pp_less_than_p"
    by simp_all
  from T[where ?pp0.0 = "9/10" and ?q0.0 = "9/10" and ?w0.0 = "1/100"]
  have b: "rb_new scenario_env scenario_aCalc False (1/10) (1/2) (9/10) (9/10) (1/100) scenario_net
             = Inl q_less_than_one"
    "sb_new scenario_env scenario_aCalc False (1/10) (1/2) (9/10) (9/10) (1/100) scenario_net
             = Inl q_less_than_one"
    by simp_all
  from T[where ?pp0.0 = "9/10" and ?q0.0 = "3/2" and ?w0.0 = 1]
  have c: "rb_new scenario_env scenario_aCalc False (1/10) (1/2) (9/10) (3/2) 1 scenario_net
             = Inl w_out_of_range"
    by simp
  from T[where ?pp0.0 = "9/10" and ?q0.0 = "3/2" and ?w0.0 = 0]
  have d: "sb_new scenario_env scenario_aCalc False (1/10) (1/2) (9/10) (3/2) 0 scenario_net
             = Inl w_out_of_range"
    by simp
  from T[where ?pp0.0 = "9/10" and ?q0.0 = "3/2" and ?w0.0 = "1/100" and c = "(1/10, 0)"
           and b = "1/2" and c' = "(1/10, 0)" and gg = "()"] k
  have e: "\<exists>old proj. rb_new scenario_env scenario_aCalc False (1/10) (1/2) (9/10) (3/2) (1/100)
                  scenario_net
      = Inr \<lparr>rb_p = 1/2, rb_pp = 9/10, rb_q = 3/2, rb_w = 1/100, rb_preCalc = True,
             rb_substantially = False, rb_oldPop = old, rb_projPop = proj,
             rb_ch = (1/10, 0), rb_bc = 1/2, rb_aCalc = scenario_aCalc\<rparr>"
    "\<exists>old g proj. sb_new scenario_env scenario_aCalc False (1/10) (1/2) (9/10) (3/2) (1/100)
                  scenario_net
      = Inr \<lparr>sb_p = 1/2, sb_pp = 9/10, sb_q = 3/2, sb_w = 1/100, sb_preCalc = True,
             sb_substantially = False, sb_oldPop = old, sb_old_g = g, sb_projPop = proj,
             sb_ch = (1/10, 0), sb_bc = 1/2, sb_gGet = (), sb_aCalc = scenario_aCalc\<rparr>"
    by simp_all
  show ?thesis by (intro conjI n a b c d k e)
qed

text \<open>
  C2, as the specification has it, with \<open>pp\<close> validated to lie in \<open>[p,1]\<close>: with
  collaborators that validate \<open>eps\<close> and \<open>p\<close>, both constructors accept \<open>pp = 2\<close>.
\<close>

theorem constructor_validation_counterexample:
  "rb_new scenario_env scenario_aCalc False (1/10) (1/2) 2 (3/2) (1/100) scenario_net
     = Inr (scenario_rb\<lparr>rb_pp := 2\<rparr>) \<and>
   sb_new scenario_env scenario_aCalc False (1/10) (1/2) 2 (3/2) (1/100) scenario_net
     = Inr (scenario_sb\<lparr>sb_pp := 2\<rparr>) \<and>
   (1::real) < 2"
  by (simp add: rb_new_def sb_new_def scenario_env_def scenario_net_def scenario_rb_def
      scenario_sb_def rb_addRxn_def sb_addSpecies_def)

text \<open>
  C7. When \<^verbatim>\<open>update\<close> returns, every baseline entry holds the live value. In the
  reaction-based checker there is one row for every reaction, every row has kept
  its length and reaches all rate species of its reaction, and \<^verbatim>\<open>oldPop[v][j]\<close>
  is the population of the \<open>j\<close>-th rate species of reaction \<open>v\<close>; where every
  row has as many entries as its reaction has rate species, as \<^verbatim>\<open>addRxn\<close> makes
  them, the baseline is exactly the table of the live populations. In the
  species-based checker \<^verbatim>\<open>oldPop[j]\<close> is the population of species \<open>j\<close> and
  \<^verbatim>\<open>old_g[j]\<close> is \<^verbatim>\<open>get_g(j)\<close>, for every species. Nothing else changes: the
  final state is the initial one with new baseline arrays, so \<^verbatim>\<open>projPop\<close>, \<open>p\<close>,
  \<open>pp\<close>, \<open>q\<close>, \<open>w\<close>, \<^verbatim>\<open>preCalc\<close> and \<^verbatim>\<open>substantially\<close> are what they were.
\<close>

theorem update_copies_live_values:
  "(rb_update net st = Inr st' \<longrightarrow>
      length (rb_oldPop st') = length (rxn net) \<and>
      (\<forall>v<length (rb_oldPop st'). \<forall>j<length (rb_oldPop st' ! v).
          j < length (rxn net ! v) \<longrightarrow> rb_oldPop st' ! v ! j = population net (rxn net ! v ! j)) \<and>
      (\<forall>v<length (rxn net).
          length (rb_oldPop st' ! v) = length (rb_oldPop st ! v) \<and>
          length (rxn net ! v) \<le> length (rb_oldPop st' ! v) \<and>
          (\<forall>j<length (rxn net ! v). rb_oldPop st' ! v ! j = population net (rxn net ! v ! j))) \<and>
      (list_all2 (\<lambda>row rs. length row = length rs) (rb_oldPop st) (rxn net) \<longrightarrow>
         rb_oldPop st' = map (map (population net)) (rxn net)) \<and>
      st' = st\<lparr>rb_oldPop := rb_oldPop st'\<rparr> \<and>
      rb_projPop st' = rb_projPop st \<and> rb_p st' = rb_p st \<and> rb_pp st' = rb_pp st \<and>
      rb_q st' = rb_q st \<and> rb_w st' = rb_w st \<and> rb_preCalc st' = rb_preCalc st \<and>
      rb_substantially st' = rb_substantially st) \<and>
   (sb_update E net t = Inr t' \<longrightarrow>
      sb_oldPop t' = map (population net) (sp net) \<and>
      sb_old_g t' = map (get_g E net (sb_gGet t)) [0..<length (sp net)] \<and>
      t' = t\<lparr>sb_oldPop := sb_oldPop t', sb_old_g := sb_old_g t'\<rparr> \<and>
      sb_projPop t' = sb_projPop t \<and> sb_p t' = sb_p t \<and> sb_pp t' = sb_pp t \<and>
      sb_q t' = sb_q t \<and> sb_w t' = sb_w t \<and> sb_preCalc t' = sb_preCalc t \<and>
      sb_substantially t' = sb_substantially t)"
proof (intro conjI impI)
  assume a: "rb_update net st = Inr st'"
  note v = rb_update_values[OF a]
  show "length (rb_oldPop st') = length (rxn net)" by (rule v(2))
  show "\<forall>v<length (rb_oldPop st'). \<forall>j<length (rb_oldPop st' ! v).
          j < length (rxn net ! v) \<longrightarrow> rb_oldPop st' ! v ! j = population net (rxn net ! v ! j)"
    by (rule v(1))
  show "\<forall>v<length (rxn net).
          length (rb_oldPop st' ! v) = length (rb_oldPop st ! v) \<and>
          length (rxn net ! v) \<le> length (rb_oldPop st' ! v) \<and>
          (\<forall>j<length (rxn net ! v). rb_oldPop st' ! v ! j = population net (rxn net ! v ! j))"
  proof (intro allI impI conjI)
    fix v assume v: "v < length (rxn net)"
    show "length (rb_oldPop st' ! v) = length (rb_oldPop st ! v)"
      by (rule rb_update_rows(1)[OF a v])
    show "length (rxn net ! v) \<le> length (rb_oldPop st' ! v)"
      by (rule rb_update_rows(2)[OF a v])
    fix j assume "j < length (rxn net ! v)"
    then show "rb_oldPop st' ! v ! j = population net (rxn net ! v ! j)"
      by (rule rb_update_rows(3)[OF a v])
  qed
  show e: "st' = st\<lparr>rb_oldPop := rb_oldPop st'\<rparr>" by (rule v(3))
  show "rb_projPop st' = rb_projPop st" by (subst e) simp
  show "rb_p st' = rb_p st" by (subst e) simp
  show "rb_pp st' = rb_pp st" by (subst e) simp
  show "rb_q st' = rb_q st" by (subst e) simp
  show "rb_w st' = rb_w st" by (subst e) simp
  show "rb_preCalc st' = rb_preCalc st" by (subst e) simp
  show "rb_substantially st' = rb_substantially st" by (subst e) simp
next
  assume "rb_update net st = Inr st'"
    and "list_all2 (\<lambda>row rs. length row = length rs) (rb_oldPop st) (rxn net)"
  then show "rb_oldPop st' = map (map (population net)) (rxn net)" by (rule rb_update_exact)
next
  assume a: "sb_update E net t = Inr t'"
  note v = sb_update_values[OF a]
  show "sb_oldPop t' = map (population net) (sp net)" by (rule v(1))
  show "sb_old_g t' = map (get_g E net (sb_gGet t)) [0..<length (sp net)]" by (rule v(2))
  show e: "t' = t\<lparr>sb_oldPop := sb_oldPop t', sb_old_g := sb_old_g t'\<rparr>" by (rule v(3))
  show "sb_projPop t' = sb_projPop t" by (subst e) simp
  show "sb_p t' = sb_p t" by (subst e) simp
  show "sb_pp t' = sb_pp t" by (subst e) simp
  show "sb_q t' = sb_q t" by (subst e) simp
  show "sb_w t' = sb_w t" by (subst e) simp
  show "sb_preCalc t' = sb_preCalc t" by (subst e) simp
  show "sb_substantially t' = sb_substantially t" by (subst e) simp
qed

theorem update_copies_live_values_witness:
  "rb_oldPop pair_rb = [[1, 2], [3]] \<and>
   rb_update pair_net pair_rb = Inr (pair_rb\<lparr>rb_oldPop := [[7, 9], [9]]\<rparr>) \<and>
   list_all2 (\<lambda>row rs. length row = length rs) (rb_oldPop pair_rb) (rxn pair_net) \<and>
   rb_oldPop (pair_rb\<lparr>rb_oldPop := [[7, 9], [9]]\<rparr>)
     = map (map (population pair_net)) (rxn pair_net) \<and>
   length (rb_oldPop (pair_rb\<lparr>rb_oldPop := [[7, 9], [9]]\<rparr>) ! 0) = length (rb_oldPop pair_rb ! 0) \<and>
   length (rb_oldPop (pair_rb\<lparr>rb_oldPop := [[7, 9], [9]]\<rparr>) ! 1) = length (rb_oldPop pair_rb ! 1) \<and>
   rb_oldPop (pair_rb\<lparr>rb_oldPop := [[7, 9], [9]]\<rparr>) ! 1 ! 0
     = population pair_net (rxn pair_net ! 1 ! 0) \<and>
   rb_projPop (pair_rb\<lparr>rb_oldPop := [[7, 9], [9]]\<rparr>) = [[0, 0], [0]] \<and>
   sb_oldPop pair_sb = [1, 2] \<and> sb_old_g pair_sb = [5, 5] \<and>
   sb_update scenario_env pair_net pair_sb
     = Inr (pair_sb\<lparr>sb_oldPop := [7, 9], sb_old_g := [1, 1]\<rparr>) \<and>
   sb_oldPop (pair_sb\<lparr>sb_oldPop := [7, 9], sb_old_g := [1, 1]\<rparr>)
     = map (population pair_net) (sp pair_net) \<and>
   sb_old_g (pair_sb\<lparr>sb_oldPop := [7, 9], sb_old_g := [1, 1]\<rparr>)
     = map (get_g scenario_env pair_net ()) [0..<length (sp pair_net)] \<and>
   sb_projPop (pair_sb\<lparr>sb_oldPop := [7, 9], sb_old_g := [1, 1]\<rparr>) = [0, 0] \<and>
   rb_update scenario_net_leapt (scenario_rb_at (105 + sqrt 5) 4)
     = Inr ((scenario_rb_at (105 + sqrt 5) 4)\<lparr>rb_oldPop := [[105]]\<rparr>) \<and>
   sb_update scenario_env scenario_net_leapt (scenario_sb_at (105 + sqrt 5) 4)
     = Inr ((scenario_sb_at (105 + sqrt 5) 4)\<lparr>sb_oldPop := [105]\<rparr>)"
proof -
  let ?r' = "pair_rb\<lparr>rb_oldPop := [[7, 9], [9]]\<rparr>"
  let ?t' = "pair_sb\<lparr>sb_oldPop := [7, 9], sb_old_g := [1, 1]\<rparr>"
  note T = update_copies_live_values
    [where net = pair_net and st = pair_rb and st' = ?r' and E = scenario_env and t = pair_sb
       and t' = ?t']
  have h: "list_all2 (\<lambda>row rs. length row = length rs) (rb_oldPop pair_rb) (rxn pair_net)"
    by (simp add: pair_rb_def pair_net_def)
  have o: "rb_oldPop pair_rb = [[1, 2], [3]]" "sb_oldPop pair_sb = [1, 2]"
    "sb_old_g pair_sb = [5, 5]"
    by (simp_all add: pair_rb_def pair_sb_def)
  have n: "(0::nat) < length (rxn pair_net)" "(1::nat) < length (rxn pair_net)"
    "(0::nat) < length (rxn pair_net ! 1)"
    by (simp_all add: pair_net_def)
  from T pair_rb_update have A: "\<forall>v<length (rxn pair_net).
          length (rb_oldPop ?r' ! v) = length (rb_oldPop pair_rb ! v) \<and>
          length (rxn pair_net ! v) \<le> length (rb_oldPop ?r' ! v) \<and>
          (\<forall>j<length (rxn pair_net ! v).
              rb_oldPop ?r' ! v ! j = population pair_net (rxn pair_net ! v ! j))"
    by blast
  from A n(1) have a0: "length (rb_oldPop ?r' ! 0) = length (rb_oldPop pair_rb ! 0)" by blast
  from A n(2) have a1: "length (rb_oldPop ?r' ! 1) = length (rb_oldPop pair_rb ! 1)" by blast
  from A n(2,3) have a2: "rb_oldPop ?r' ! 1 ! 0 = population pair_net (rxn pair_net ! 1 ! 0)"
    by blast
  from T pair_rb_update h have b: "rb_oldPop ?r' = map (map (population pair_net)) (rxn pair_net)"
    by blast
  from T pair_sb_update have c:
    "sb_oldPop ?t' = map (population pair_net) (sp pair_net)"
    "sb_old_g ?t' = map (get_g scenario_env pair_net (sb_gGet pair_sb)) [0..<length (sp pair_net)]"
    by blast+
  have d: "sb_gGet pair_sb = ()" by simp
  have e: "rb_projPop ?r' = [[0, 0], [0]]" "sb_projPop ?t' = [0, 0]"
    by (simp_all add: pair_rb_def pair_sb_def)
  show ?thesis
    by (intro conjI o pair_rb_update pair_sb_update h b a0 a1 a2 c(1) c(2)[unfolded d] e
        scenario_rb_update scenario_sb_update)
qed






end
